theory Spec2Isabelle
  imports Main "HOL-Library.Word"
begin

unbundle bit_operations_syntax

section \<open>Go values shared by the packages\<close>

text \<open>
  A Go \<^verbatim>\<open>[]byte\<close> and a Go \<^verbatim>\<open>string\<close> are both byte sequences: \<open>string\<close> here.
  A Go \<^verbatim>\<open>error\<close> is a value of the datatype \<open>error\<close>; the nil error is \<open>None\<close> of
  \<open>error option\<close>. \<open>ErrorString\<close> is what \<^verbatim>\<open>errors.New\<close> and \<^verbatim>\<open>fmt.Errorf\<close> build (the
  formatted message); \<open>ValidationError\<close> is the error struct of the JWT library, with its
  \<^verbatim>\<open>Inner\<close> error, its \<^verbatim>\<open>Errors\<close> bit field (a uint32) and its \<^verbatim>\<open>text\<close>.
  A function that can panic returns an \<open>outcome\<close>.
\<close>

type_synonym bytes = string

datatype error = ErrorString string | ValidationError "error option" "32 word" string

datatype 'a outcome = Return 'a | Panic string

text \<open>\<^verbatim>\<open>err.Error()\<close>, the message that the verb \<^verbatim>\<open>%v\<close> prints.\<close>

fun Error :: "error \<Rightarrow> string" where
  "Error (ErrorString s) = s"
| "Error (ValidationError (Some e) errors text) = Error e"
| "Error (ValidationError None errors text) = (if text \<noteq> [] then text else ''token is invalid'')"

subsection \<open>Package strings\<close>

definition HasSuffix :: "string \<Rightarrow> string \<Rightarrow> bool" where
  "HasSuffix s suffix \<longleftrightarrow>
     length s \<ge> length suffix \<and> drop (length s - length suffix) s = suffix"

definition TrimSuffix :: "string \<Rightarrow> string \<Rightarrow> string" where
  "TrimSuffix s suffix =
     (if HasSuffix s suffix then take (length s - length suffix) s else s)"

definition HasPrefix :: "string \<Rightarrow> string \<Rightarrow> bool" where
  "HasPrefix s prefix \<longleftrightarrow> length s \<ge> length prefix \<and> take (length prefix) s = prefix"

definition TrimPrefix :: "string \<Rightarrow> string \<Rightarrow> string" where
  "TrimPrefix s prefix = (if HasPrefix s prefix then drop (length prefix) s else s)"

subsection \<open>Package net/http: the parts of a request the packages touch\<close>

text \<open>
  \<^verbatim>\<open>http.Header\<close> is a \<^verbatim>\<open>map[string][]string\<close>; a Go map can be nil (\<open>None\<close>): reading a
  nil map finds nothing, writing to it panics. \<^verbatim>\<open>r.URL\<close> is a pointer, nil in a request
  built as a bare struct literal. \<open>Header_Get\<close> and \<open>Header_Add\<close> are the methods
  \<^verbatim>\<open>Header.Get\<close> and \<^verbatim>\<open>Header.Add\<close> for a key that is already in canonical form, as
  \<^verbatim>\<open>Authorization\<close> (the only key used) is.
\<close>

record URL =
  Path :: string

record Request =
  Method :: string
  URL :: "URL option"
  Header :: "(string \<rightharpoonup> string list) option"

definition Header_Get :: "(string \<rightharpoonup> string list) option \<Rightarrow> string \<Rightarrow> string" where
  "Header_Get h key =
     (case h of
        None \<Rightarrow> []
      | Some m \<Rightarrow> (case m key of None \<Rightarrow> [] | Some [] \<Rightarrow> [] | Some (v # _) \<Rightarrow> v))"

definition Header_Add ::
  "(string \<rightharpoonup> string list) option \<Rightarrow> string \<Rightarrow> string \<Rightarrow> (string \<rightharpoonup> string list) option outcome"
where
  "Header_Add h key val =
     (case h of
        None \<Rightarrow> Panic ''assignment to entry in nil map''
      | Some m \<Rightarrow> Return (Some (m(key \<mapsto> (case m key of None \<Rightarrow> [] | Some vs \<Rightarrow> vs) @ [val]))))"

section \<open>Package token: the Bearer carrier\<close>

text \<open>
  \<^verbatim>\<open>regexp.Compile("^Bearer (.*)$")\<close> followed by \<^verbatim>\<open>FindStringSubmatch\<close>: without flags
  \<^verbatim>\<open>^\<close> and \<^verbatim>\<open>$\<close> match only at the two ends of the text and \<^verbatim>\<open>.\<close> matches every
  character but the newline. The result is nil (\<open>[]\<close>) when the text does not match, and
  otherwise the whole match followed by the group.
\<close>

definition FindStringSubmatch_Bearer :: "string \<Rightarrow> string list" where
  "FindStringSubmatch_Bearer s =
     (if HasPrefix s ''Bearer '' \<and> CHR 0x0A \<notin> set (drop 7 s) then [s, drop 7 s] else [])"

definition Bearer_Get :: "Request \<Rightarrow> error + string" where
  "Bearer_Get r =
     (let tknBearer = FindStringSubmatch_Bearer (Header_Get (Header r) ''Authorization'')
      in if length tknBearer < 2 \<or> tknBearer ! 1 = []
         then Inl (ErrorString ''bearer token not found'')
         else Inr (tknBearer ! 1))"

text \<open>\<open>Bearer_Set\<close> returns the error (always nil) and the request as mutated.\<close>

definition Bearer_Set :: "Request \<Rightarrow> string \<Rightarrow> (error option \<times> Request) outcome" where
  "Bearer_Set r token =
     (case Header_Add (Header r) ''Authorization'' (''Bearer '' @ token) of
        Panic msg \<Rightarrow> Panic msg
      | Return h \<Rightarrow> Return (None, r\<lparr>Header := h\<rparr>))"

section \<open>Package keychain\<close>

subsection \<open>The file provider\<close>

text \<open>
  The functions of \<^verbatim>\<open>ioutil\<close> and \<^verbatim>\<open>path\<close> that the provider calls, as one refresh finds
  them: \<open>ReadDir\<close> gives the names of the directory's entries, \<open>ReadFile\<close> a file's
  bytes, \<open>Join\<close> is \<^verbatim>\<open>path.Join\<close>.
\<close>

record IO =
  ReadDir :: "string \<Rightarrow> error + string list"
  ReadFile :: "string \<Rightarrow> error + bytes"
  Join :: "string \<Rightarrow> string \<Rightarrow> string"

record FileProvider =
  Path :: string
  RefreshRate :: int
  data :: "string \<rightharpoonup> bytes"

definition FileProvider_GetPublicKey :: "FileProvider \<Rightarrow> string \<Rightarrow> error + bytes" where
  "FileProvider_GetPublicKey k issuer =
     (case FileProvider.data k issuer of
        None \<Rightarrow> Inl (ErrorString (''no data for key '' @ issuer))
      | Some val \<Rightarrow> Inr val)"

text \<open>The body of the loop over the directory's entries, with the map built so far.\<close>

fun FileProvider_update_loop ::
  "IO \<Rightarrow> string \<Rightarrow> string list \<Rightarrow> (string \<rightharpoonup> bytes) \<Rightarrow> error + (string \<rightharpoonup> bytes)"
where
  "FileProvider_update_loop io dir [] newVal = Inr newVal"
| "FileProvider_update_loop io dir (f # files) newVal =
     (if \<not> HasSuffix f ''_rsa_public.pem'' then FileProvider_update_loop io dir files newVal
      else
        let key = TrimSuffix f ''_rsa_public.pem'' in
        case ReadFile io (Join io dir f) of
          Inl err \<Rightarrow> Inl (ErrorString (''can't read file: '' @ Error err))
        | Inr v \<Rightarrow> FileProvider_update_loop io dir files (newVal(key \<mapsto> v)))"

definition FileProvider_update :: "IO \<Rightarrow> FileProvider \<Rightarrow> error option \<times> FileProvider" where
  "FileProvider_update io p =
     (case ReadDir io (FileProvider.Path p) of
        Inl err \<Rightarrow> (Some (ErrorString (''can't read directory: '' @ Error err)), p)
      | Inr files \<Rightarrow>
          (case FileProvider_update_loop io (FileProvider.Path p) files Map.empty of
             Inl err \<Rightarrow> (Some err, p)
           | Inr newVal \<Rightarrow> (None, p\<lparr>FileProvider.data := newVal\<rparr>)))"

subsection \<open>The S3 provider\<close>

text \<open>
  The S3 client as one refresh finds the service: \<open>ListObjectsV2 bucket prefix\<close> gives
  the keys of the listed objects (\<^verbatim>\<open>out.Contents\<close>) of one response, which is one page
  of the listing (the refresh makes a single call and does not read the continuation
  token), \<open>GetObject bucket key\<close> gives the object's body, represented by what
  \<^verbatim>\<open>ioutil.ReadAll\<close> of it returns.
\<close>

record S3Client =
  ListObjectsV2 :: "string \<Rightarrow> string \<Rightarrow> error + string list"
  GetObject :: "string \<Rightarrow> string \<Rightarrow> error + (error + bytes)"

record S3Provider =
  Bucket :: string
  Path :: string
  RefreshRate :: int
  client :: bool
  data :: "string \<rightharpoonup> bytes"

definition S3Provider_GetPublicKey :: "S3Provider \<Rightarrow> string \<Rightarrow> error + bytes" where
  "S3Provider_GetPublicKey k issuer =
     (case S3Provider.data k issuer of
        None \<Rightarrow> Inl (ErrorString (''no data for key '' @ issuer))
      | Some val \<Rightarrow> Inr val)"

fun S3Provider_update_loop ::
  "S3Client \<Rightarrow> string \<Rightarrow> string \<Rightarrow> string list \<Rightarrow> (string \<rightharpoonup> bytes) \<Rightarrow> error + (string \<rightharpoonup> bytes)"
where
  "S3Provider_update_loop s3 bucket pref [] newVal = Inr newVal"
| "S3Provider_update_loop s3 bucket pref (objKey # contents) newVal =
     (if \<not> HasSuffix objKey ''_rsa_public.pem''
      then S3Provider_update_loop s3 bucket pref contents newVal
      else
        case GetObject s3 bucket objKey of
          Inl err \<Rightarrow>
            Inl (ErrorString (''can't load key file `s3://'' @ bucket @ ''/'' @ objKey @ ''`: '' @ Error err))
        | Inr body \<Rightarrow>
            (case body of
               Inl err \<Rightarrow>
                 Inl (ErrorString (''can't read key file `s3://'' @ bucket @ ''/'' @ objKey @ ''`: '' @ Error err))
             | Inr dat \<Rightarrow>
                 let key = TrimSuffix objKey ''_rsa_public.pem'';
                     key = TrimPrefix key pref
                 in S3Provider_update_loop s3 bucket pref contents (newVal(key \<mapsto> dat))))"

definition S3Provider_update :: "S3Client \<Rightarrow> S3Provider \<Rightarrow> error option \<times> S3Provider" where
  "S3Provider_update s3 p =
     (let pref = S3Provider.Path p @ ''/'' in
      case ListObjectsV2 s3 (Bucket p) pref of
        Inl err \<Rightarrow> (Some (ErrorString (''can't list S3 bucket: '' @ Error err)), p)
      | Inr contents \<Rightarrow>
          (case S3Provider_update_loop s3 (Bucket p) pref contents Map.empty of
             Inl err \<Rightarrow> (Some err, p)
           | Inr newVal \<Rightarrow> (None, p\<lparr>S3Provider.data := newVal\<rparr>)))"

subsection \<open>The refresh loop\<close>

text \<open>
  \<^verbatim>\<open>Run\<close> loops over a \<^verbatim>\<open>select\<close> with three receive cases, in the order of the source:
  \<^verbatim>\<open>ctx.Done()\<close>, \<^verbatim>\<open>ticker.C\<close> and the channel \<^verbatim>\<open>next\<close> (buffered, capacity 1, written
  and read by this goroutine only; \<open>nxt\<close> says whether it holds a value).
  The loop runs against a schedule: one \<open>moment\<close> for each time the goroutine reaches
  its \<^verbatim>\<open>select\<close> or is woken up in it. A moment says whether the context is cancelled,
  whether the ticker's channel holds a tick, which of the ready cases the runtime picks
  (Go picks uniformly at random: \<open>rnd\<close>), and the Key Source as a refresh at that moment
  finds it. With no case ready the \<^verbatim>\<open>select\<close> blocks until a later moment.
  The send \<^verbatim>\<open>next <- true\<close> of the ticker case is not part of the \<^verbatim>\<open>select\<close>: on a full
  channel it blocks, and as no other goroutine receives from \<^verbatim>\<open>next\<close>, for ever.
  \<open>InSelect\<close> is a loop that has used up the schedule and waits in its \<^verbatim>\<open>select\<close>.
\<close>

datatype select_case = CtxDone | TickerC | NextCh

record 'io moment =
  ctx_done :: bool
  tick :: bool
  rnd :: nat
  source :: 'io

datatype 'p run_result = Returned "error option" 'p | BlockedOnSend 'p | InSelect 'p bool

definition ready_cases :: "'io moment \<Rightarrow> bool \<Rightarrow> select_case list" where
  "ready_cases m nxt =
     (if ctx_done m then [CtxDone] else []) @ (if tick m then [TickerC] else [])
       @ (if nxt then [NextCh] else [])"

definition select_stmt :: "'io moment \<Rightarrow> bool \<Rightarrow> select_case option" where
  "select_stmt m nxt =
     (let rs = ready_cases m nxt in if rs = [] then None else Some (rs ! (rnd m mod length rs)))"

fun Run_loop ::
  "('io \<Rightarrow> 'p \<Rightarrow> error option \<times> 'p) \<Rightarrow> 'p \<Rightarrow> bool \<Rightarrow> 'io moment list \<Rightarrow> 'p run_result"
where
  "Run_loop update p nxt [] = InSelect p nxt"
| "Run_loop update p nxt (m # ms) =
     (case select_stmt m nxt of
        None \<Rightarrow> Run_loop update p nxt ms
      | Some CtxDone \<Rightarrow> Returned None p
      | Some TickerC \<Rightarrow> if nxt then BlockedOnSend p else Run_loop update p True ms
      | Some NextCh \<Rightarrow>
          (case update (source m) p of
             (Some err, p') \<Rightarrow> Returned (Some err) p'
           | (None, p') \<Rightarrow> Run_loop update p' False ms))"

definition Second :: int where
  "Second = 1000000000"

text \<open>\<^verbatim>\<open>time.NewTicker\<close> panics on an interval that is not positive.\<close>

definition FileProvider_Run ::
  "FileProvider \<Rightarrow> IO moment list \<Rightarrow> FileProvider run_result outcome"
where
  "FileProvider_Run p ms =
     (let p = (if FileProvider.RefreshRate p = 0
               then p\<lparr>FileProvider.RefreshRate := 10 * Second\<rparr> else p)
      in if FileProvider.RefreshRate p \<le> 0 then Panic ''non-positive interval for NewTicker''
         else Return (Run_loop FileProvider_update p True ms))"

text \<open>
  \<open>LoadDefaultConfig\<close> is the error of \<^verbatim>\<open>config.LoadDefaultConfig\<close>, called when the
  provider has no client yet.
\<close>

definition S3Provider_Run ::
  "error option \<Rightarrow> S3Provider \<Rightarrow> S3Client moment list \<Rightarrow> S3Provider run_result outcome"
where
  "S3Provider_Run LoadDefaultConfig p ms =
     (let p = (if S3Provider.RefreshRate p = 0
               then p\<lparr>S3Provider.RefreshRate := 10 * Second\<rparr> else p)
      in if \<not> client p \<and> LoadDefaultConfig \<noteq> None
         then Return (Returned LoadDefaultConfig p)
         else
           let p = (if \<not> client p then p\<lparr>client := True\<rparr> else p)
           in if S3Provider.RefreshRate p \<le> 0 then Panic ''non-positive interval for NewTicker''
              else Return (Run_loop S3Provider_update p True ms))"

subsection \<open>An example Key Source\<close>

text \<open>
  A directory and a bucket holding \<^verbatim>\<open>a_rsa_public.pem\<close>, \<^verbatim>\<open>b_rsa_public.pem\<close> and
  \<^verbatim>\<open>not_a_key.txt\<close>, the same two with the key of \<^verbatim>\<open>b\<close> unreadable, and providers that
  hold keys of an earlier refresh.
\<close>

definition example_dir :: IO where
  "example_dir =
     \<lparr>ReadDir = (\<lambda>d. if d = ''keys''
                       then Inr [''a_rsa_public.pem'', ''b_rsa_public.pem'', ''not_a_key.txt'']
                       else Inl (ErrorString ''no such directory'')),
      ReadFile = (\<lambda>f. if f = ''keys/a_rsa_public.pem'' then Inr ''KEY A''
                        else if f = ''keys/b_rsa_public.pem'' then Inr ''KEY B''
                        else Inl (ErrorString ''no such file'')),
      Join = (\<lambda>d f. d @ ''/'' @ f)\<rparr>"

definition example_dir_unreadable :: IO where
  "example_dir_unreadable =
     example_dir\<lparr>ReadFile := (\<lambda>f. if f = ''keys/a_rsa_public.pem'' then Inr ''KEY A''
                        else Inl (ErrorString ''permission denied''))\<rparr>"

definition example_bucket :: S3Client where
  "example_bucket =
     \<lparr>ListObjectsV2 = (\<lambda>b pref. if b = ''bucket'' \<and> pref = ''keys/''
                       then Inr [''keys/a_rsa_public.pem'', ''keys/b_rsa_public.pem'', ''keys/not_a_key.txt'']
                       else Inl (ErrorString ''access denied'')),
      GetObject = (\<lambda>b k. if k = ''keys/a_rsa_public.pem'' then Inr (Inr ''KEY A'')
                        else if k = ''keys/b_rsa_public.pem'' then Inr (Inr ''KEY B'')
                        else Inl (ErrorString ''no such key''))\<rparr>"

definition example_bucket_unreadable :: S3Client where
  "example_bucket_unreadable =
     example_bucket\<lparr>GetObject := (\<lambda>b k. if k = ''keys/a_rsa_public.pem'' then Inr (Inr ''KEY A'')
                        else if k = ''keys/b_rsa_public.pem'' then Inr (Inl (ErrorString ''connection reset''))
                        else Inl (ErrorString ''no such key''))\<rparr>"

definition example_FileProvider :: FileProvider where
  "example_FileProvider =
     \<lparr>FileProvider.Path = ''keys'', RefreshRate = 0,
      data = [''a'' \<mapsto> ''OLD A'', ''b'' \<mapsto> ''OLD B'']\<rparr>"

definition example_S3Provider :: S3Provider where
  "example_S3Provider =
     \<lparr>Bucket = ''bucket'', S3Provider.Path = ''keys'', RefreshRate = 0, client = True,
      data = [''a'' \<mapsto> ''OLD A'', ''b'' \<mapsto> ''OLD B'']\<rparr>"



text \<open>
  Moments of a schedule: one where neither the context nor the ticker is ready, one where
  the ticker holds a tick, and one where the context is cancelled (with the runtime's
  random number).
\<close>

definition moment_quiet :: "'io \<Rightarrow> 'io moment" where
  "moment_quiet src = \<lparr>ctx_done = False, tick = False, rnd = 0, source = src\<rparr>"

definition moment_tick :: "'io \<Rightarrow> 'io moment" where
  "moment_tick src = \<lparr>ctx_done = False, tick = True, rnd = 0, source = src\<rparr>"

definition moment_cancelled :: "nat \<Rightarrow> 'io \<Rightarrow> 'io moment" where
  "moment_cancelled r src = \<lparr>ctx_done = True, tick = False, rnd = r, source = src\<rparr>"

section \<open>Package jwt: the JWT library the packages call\<close>

text \<open>
  The library is \<^verbatim>\<open>github.com/dgrijalva/jwt-go v3.2.0\<close>, fixed by \<^verbatim>\<open>go.mod\<close>. It is not part of
  the repository. Its cryptography and its wire format are parameters of the model (the
  record \<open>JWT\<close>): parsing of PEM keys, \<open>SignedString\<close> (the compact serialisation of
  \<^verbatim>\<open>jwt.NewWithClaims(jwt.SigningMethodRS256, claims)\<close> signed with a private key),
  \<open>ParseUnverified\<close> (the signing method and the claims a token string decodes to) and
  \<open>Verify\<close> (the check of the signature part of a token string against a public key,
  \<open>None\<close> when it verifies). The control flow of \<^verbatim>\<open>StandardClaims.Valid\<close> and of
  \<^verbatim>\<open>Parser.ParseWithClaims\<close> is modelled after the library's version 3.2.0.
  Times are in nanoseconds since the epoch, durations in nanoseconds (\<^verbatim>\<open>time.Duration\<close>),
  \<open>Unix\<close> gives whole seconds as \<^verbatim>\<open>Time.Unix\<close> does; integers are unbounded.
\<close>

definition Unix :: "int \<Rightarrow> int" where
  "Unix t = t div Second"

record StandardClaims =
  Audience :: string
  ExpiresAt :: int
  Id :: string
  IssuedAt :: int
  Issuer :: string
  NotBefore :: int
  Subject :: string

record TokenClaims = StandardClaims +
  Method :: string
  Path :: string

datatype SigningMethod = SigningMethodRSA string | SigningMethodOther string

record Token =
  Raw :: string
  Method :: SigningMethod
  Claims :: TokenClaims
  Valid :: bool

record ('priv, 'pub) JWT =
  ParseRSAPrivateKeyFromPEM :: "bytes \<Rightarrow> error + 'priv"
  ParseRSAPublicKeyFromPEM :: "bytes \<Rightarrow> error + 'pub"
  SignedString :: "'priv \<Rightarrow> TokenClaims \<Rightarrow> error + string"
  ParseUnverified :: "string \<Rightarrow> error + SigningMethod \<times> TokenClaims"
  Verify :: "string \<Rightarrow> 'pub \<Rightarrow> error option"

definition ValidationErrorUnverifiable :: "32 word" where
  "ValidationErrorUnverifiable = 2"

definition ValidationErrorSignatureInvalid :: "32 word" where
  "ValidationErrorSignatureInvalid = 4"

definition ValidationErrorExpired :: "32 word" where
  "ValidationErrorExpired = 16"

definition ValidationErrorIssuedAt :: "32 word" where
  "ValidationErrorIssuedAt = 32"

definition ValidationErrorNotValidYet :: "32 word" where
  "ValidationErrorNotValidYet = 128"

definition ValidationErrorClaimsInvalid :: "32 word" where
  "ValidationErrorClaimsInvalid = 512"

definition verifyExp :: "int \<Rightarrow> int \<Rightarrow> bool \<Rightarrow> bool" where
  "verifyExp exp now required = (if exp = 0 then \<not> required else now \<le> exp)"

definition verifyIat :: "int \<Rightarrow> int \<Rightarrow> bool \<Rightarrow> bool" where
  "verifyIat iat now required = (if iat = 0 then \<not> required else now \<ge> iat)"

definition verifyNbf :: "int \<Rightarrow> int \<Rightarrow> bool \<Rightarrow> bool" where
  "verifyNbf nbf now required = (if nbf = 0 then \<not> required else now \<ge> nbf)"

text \<open>
  \<^verbatim>\<open>StandardClaims.Valid\<close>, which \<open>TokenClaims\<close> inherits by embedding; \<open>now\<close> is
  \<^verbatim>\<open>TimeFunc().Unix()\<close>. It is the library's function (file \<^verbatim>\<open>claims.go\<close> of version 3.2.0),
  as are \<open>verifyExp\<close>, \<open>verifyIat\<close> and \<open>verifyNbf\<close>: each claim is optional there
  (\<^verbatim>\<open>required\<close> is false), and a zero value is an absent claim. The pair is the \<^verbatim>\<open>Inner\<close>
  error and the \<^verbatim>\<open>Errors\<close> bits of the \<^verbatim>\<open>ValidationError\<close> under construction.
  The message of an expired token prints \<^verbatim>\<open>time.Unix(now, 0).Sub(time.Unix(c.ExpiresAt, 0))\<close>:
  \<open>Duration_String\<close> is \<^verbatim>\<open>Duration.String\<close> for a whole number of seconds, and \<^verbatim>\<open>Time.Sub\<close>
  gives the largest duration (the int64 \<open>2 ^ 63 - 1\<close> nanoseconds) when the difference is not
  a duration.
\<close>

fun decimal :: "nat \<Rightarrow> string" where
  "decimal n = (if n < 10 then [''0123456789'' ! n]
                else decimal (n div 10) @ [''0123456789'' ! (n mod 10)])"

definition Duration_String :: "nat \<Rightarrow> string" where
  "Duration_String secs =
     (let s = secs mod 60; m = secs div 60 in
      if m = 0 then decimal s @ ''s''
      else
        let h = m div 60; m = m mod 60 in
        (if h = 0 then [] else decimal h @ ''h'') @ decimal m @ ''m'' @ decimal s @ ''s'')"

definition expired_by :: "int \<Rightarrow> int \<Rightarrow> string" where
  "expired_by now exp =
     (if now - exp \<le> 9223372036 then Duration_String (nat (now - exp))
      else ''2562047h47m16.854775807s'')"

definition StandardClaims_Valid :: "int \<Rightarrow> 'a StandardClaims_scheme \<Rightarrow> error option" where
  "StandardClaims_Valid now c =
     (let vErr = (None, 0);
          vErr = (if verifyExp (ExpiresAt c) now False = False
                  then (Some (ErrorString (''token is expired by '' @ expired_by now (ExpiresAt c))),
                        snd vErr OR ValidationErrorExpired)
                  else vErr);
          vErr = (if verifyIat (IssuedAt c) now False = False
                  then (Some (ErrorString ''Token used before issued''), snd vErr OR ValidationErrorIssuedAt)
                  else vErr);
          vErr = (if verifyNbf (NotBefore c) now False = False
                  then (Some (ErrorString ''token is not valid yet''), snd vErr OR ValidationErrorNotValidYet)
                  else vErr)
      in if snd vErr = 0 then None else Some (ValidationError (fst vErr) (snd vErr) []))"

text \<open>
  The library's \<^verbatim>\<open>Parser.ParseWithClaims\<close> with the default parser (file \<^verbatim>\<open>parser.go\<close> of
  version 3.2.0): decode the token, ask \<open>keyFunc\<close> for the
  key, validate the claims (at the time \<open>now\<close> of this second reading of the clock), then
  verify the signature. An error of \<open>keyFunc\<close> or of the claims validation that is not a
  \<^verbatim>\<open>ValidationError\<close> is wrapped in one.
\<close>

definition ParseWithClaims ::
  "('priv, 'pub) JWT \<Rightarrow> int \<Rightarrow> string \<Rightarrow> (Token \<Rightarrow> error + 'pub) \<Rightarrow> error + Token"
where
  "ParseWithClaims lib now tokenString keyFunc =
     (case ParseUnverified lib tokenString of
        Inl err \<Rightarrow> Inl err
      | Inr (mth, claims) \<Rightarrow>
          let token = \<lparr>Raw = tokenString, Token.Method = mth, Claims = claims, Valid = False\<rparr> in
          (case keyFunc token of
             Inl err \<Rightarrow>
               (case err of
                  ValidationError inner errors text \<Rightarrow> Inl err
                | ErrorString msg \<Rightarrow> Inl (ValidationError (Some err) ValidationErrorUnverifiable []))
           | Inr key \<Rightarrow>
               let vErr = (case StandardClaims_Valid now (Claims token) of
                             Some (ValidationError inner errors text) \<Rightarrow> (inner, errors, text)
                           | Some (ErrorString msg) \<Rightarrow>
                               (Some (ErrorString msg), ValidationErrorClaimsInvalid, [])
                           | None \<Rightarrow> (None, 0, []));
                   vErr = (case Verify lib tokenString key of
                             Some err \<Rightarrow>
                               (Some err, fst (snd vErr) OR ValidationErrorSignatureInvalid, snd (snd vErr))
                           | None \<Rightarrow> vErr)
               in if fst (snd vErr) = 0 then Inr (token\<lparr>Valid := True\<rparr>)
                  else Inl (ValidationError (fst vErr) (fst (snd vErr)) (snd (snd vErr)))))"

section \<open>Package protosign\<close>

subsection \<open>The signer\<close>

text \<open>
  \<open>TokenSetter\<close> is an interface value, nil (\<open>None\<close>) until \<open>Sign\<close> installs the Bearer
  carrier. \<open>Sign\<close> takes the library, the reading \<open>now\<close> of \<^verbatim>\<open>time.Now()\<close>, the signer, the
  request and the subject, and returns the error, the signer (its defaults filled in) and
  the request as mutated. \<^verbatim>\<open>r.URL.Path\<close> on a request without URL is a nil dereference.
\<close>

record Signer =
  Issuer :: string
  PrivateRSAKey :: string
  TTL :: int
  TokenSetter :: "(Request \<Rightarrow> string \<Rightarrow> (error option \<times> Request) outcome) option"

definition nil_dereference :: string where
  "nil_dereference = ''runtime error: invalid memory address or nil pointer dereference''"

definition Sign ::
  "('priv, 'pub) JWT \<Rightarrow> int \<Rightarrow> Signer \<Rightarrow> Request \<Rightarrow> string
     \<Rightarrow> (error option \<times> Signer \<times> Request) outcome"
where
  "Sign lib now s r subject =
     (if Signer.Issuer s = [] then Return (Some (ErrorString ''no issuer specified''), s, r)
      else if PrivateRSAKey s = [] then Return (Some (ErrorString ''np private rsa key specified''), s, r)
      else
        let s = (if TokenSetter s = None then s\<lparr>TokenSetter := Some Bearer_Set\<rparr> else s);
            s = (if TTL s = 0 then s\<lparr>TTL := 1 * Second\<rparr> else s)
        in case URL r of
             None \<Rightarrow> Panic nil_dereference
           | Some u \<Rightarrow>
               let claims = \<lparr>Audience = [], ExpiresAt = Unix (now + TTL s), Id = [], IssuedAt = 0,
                             StandardClaims.Issuer = Signer.Issuer s, NotBefore = 0, Subject = subject,
                             TokenClaims.Method = Request.Method r, TokenClaims.Path = URL.Path u\<rparr>
               in case ParseRSAPrivateKeyFromPEM lib (PrivateRSAKey s) of
                    Inl err \<Rightarrow> Return (Some err, s, r)
                  | Inr signKey \<Rightarrow>
                      (case SignedString lib signKey claims of
                         Inl err \<Rightarrow> Return (Some err, s, r)
                       | Inr signedTkn \<Rightarrow>
                           (case TokenSetter s of
                              None \<Rightarrow> Panic nil_dereference
                            | Some setter \<Rightarrow>
                                (case setter r signedTkn of
                                   Panic msg \<Rightarrow> Panic msg
                                 | Return (err, r') \<Rightarrow> Return (None, s, r')))))"

subsection \<open>The validator\<close>

text \<open>
  What the handler does to the response writer and the next handler is an \<open>effect\<close>: it
  serves the request with the next handler, or calls \<^verbatim>\<open>OnError\<close> with the request and an
  error (nil is \<open>None\<close>), or writes a status. \<open>OnError\<close> says whether the callback is set.
  \<open>KeyProvider\<close> and \<open>Token\<close> are interface values, nil when \<open>None\<close>.
\<close>

datatype effect = ServeHTTP_next Request | OnError_called Request "error option" | WriteHeader nat

record SignatureValidator =
  Subject :: string
  KeyProvider :: "(string \<Rightarrow> error + bytes) option"
  Token :: "(Request \<Rightarrow> error + string) option"
  OnError :: bool

definition StatusUnauthorized :: nat where
  "StatusUnauthorized = 401"

definition handleError :: "SignatureValidator \<Rightarrow> Request \<Rightarrow> error option \<Rightarrow> effect" where
  "handleError s r err = (if OnError s then OnError_called r err else WriteHeader StatusUnauthorized)"

text \<open>\<open>keyFunc\<close>, with \<open>now\<close> the time at which its claims validation reads the clock.\<close>

definition keyFunc ::
  "('priv, 'pub) JWT \<Rightarrow> int \<Rightarrow> (string \<Rightarrow> error + bytes) \<Rightarrow> Token \<Rightarrow> error + 'pub"
where
  "keyFunc lib now keysProvider t =
     (case StandardClaims_Valid (Unix now) (Claims t) of
        Some err \<Rightarrow> Inl err
      | None \<Rightarrow>
          (case Token.Method t of
             SigningMethodOther alg \<Rightarrow> Inl (ErrorString (''unexpected signing method: '' @ alg))
           | SigningMethodRSA alg \<Rightarrow>
               let claims = Claims t in
               (case keysProvider (StandardClaims.Issuer claims) of
                  Inl err \<Rightarrow>
                    Inl (ErrorString (''can't find public key for service ''
                           @ StandardClaims.Issuer claims @ '': '' @ Error err))
                | Inr rsaKey \<Rightarrow>
                    (case ParseRSAPublicKeyFromPEM lib rsaKey of
                       Inl err \<Rightarrow> Inl err
                     | Inr key \<Rightarrow> Inr key))))"

text \<open>
  The handler that \<open>SignedRequestHandler\<close> returns, applied to a request: \<open>now1\<close> and
  \<open>now2\<close> are the two readings of the clock, by \<open>keyFunc\<close> and by the library.
  On a binding mismatch the code passes on its variable \<^verbatim>\<open>err\<close>, which is nil there.
\<close>

definition handler ::
  "('priv, 'pub) JWT \<Rightarrow> SignatureValidator \<Rightarrow> (string \<Rightarrow> error + bytes)
     \<Rightarrow> (Request \<Rightarrow> error + string) \<Rightarrow> int \<Rightarrow> int \<Rightarrow> Request \<Rightarrow> effect outcome"
where
  "handler lib s keyProvider tokenGet now1 now2 r =
     (case tokenGet r of
        Inl err \<Rightarrow> Return (handleError s r (Some err))
      | Inr authToken \<Rightarrow>
          (case ParseWithClaims lib (Unix now2) authToken (keyFunc lib now1 keyProvider) of
             Inl err \<Rightarrow> Return (handleError s r (Some err))
           | Inr tkn \<Rightarrow>
               let err = None; claims = Claims tkn in
               if Request.Method r \<noteq> TokenClaims.Method claims then Return (handleError s r err)
               else
                 (case URL r of
                    None \<Rightarrow> Panic nil_dereference
                  | Some u \<Rightarrow>
                      if URL.Path u \<noteq> TokenClaims.Path claims
                         \<or> StandardClaims.Subject claims \<noteq> SignatureValidator.Subject s
                      then Return (handleError s r err)
                      else Return (ServeHTTP_next r))))"

definition SignedRequestHandler ::
  "('priv, 'pub) JWT \<Rightarrow> SignatureValidator
     \<Rightarrow> (int \<Rightarrow> int \<Rightarrow> Request \<Rightarrow> effect outcome) outcome"
where
  "SignedRequestHandler lib s =
     (if SignatureValidator.Subject s = [] then Panic ''SignatureValidator subject missed''
      else case KeyProvider s of
             None \<Rightarrow> Panic ''SignatureValidator key provider missed''
           | Some keyProvider \<Rightarrow>
               let s = (if Token s = None then s\<lparr>Token := Some Bearer_Get\<rparr> else s)
               in case Token s of
                    None \<Rightarrow> Panic nil_dereference
                  | Some tokenGet \<Rightarrow> Return (handler lib s keyProvider tokenGet))"

text \<open>
  Building the middleware and serving one request with it:
  \<^verbatim>\<open>s.SignedRequestHandler()(next).ServeHTTP(rw, r)\<close>.
\<close>

definition SignedRequestHandler_ServeHTTP ::
  "('priv, 'pub) JWT \<Rightarrow> SignatureValidator \<Rightarrow> int \<Rightarrow> int \<Rightarrow> Request \<Rightarrow> effect outcome"
where
  "SignedRequestHandler_ServeHTTP lib s now1 now2 r =
     (case SignedRequestHandler lib s of
        Panic msg \<Rightarrow> Panic msg
      | Return h \<Rightarrow> h now1 now2 r)"

subsection \<open>An example service pair\<close>

text \<open>
  An instance of the library's parameters that knows one key pair and two token strings:
  \<^verbatim>\<open>TOKEN1\<close>, what signing \<open>example_claims\<close> with the private key of \<^verbatim>\<open>service_1\<close> gives,
  and \<^verbatim>\<open>TOKEN0\<close>, the same claims without an expiration time. Both verify against the
  public key of \<^verbatim>\<open>service_1\<close>. The signer is \<^verbatim>\<open>service_1\<close> with its defaults unset, the
  validator is \<^verbatim>\<open>service_2\<close> with a keychain that holds the public key of \<^verbatim>\<open>service_1\<close>.
\<close>

definition example_claims :: TokenClaims where
  "example_claims =
     \<lparr>Audience = [], ExpiresAt = 1623617697, Id = [], IssuedAt = 0,
      StandardClaims.Issuer = ''service_1'', NotBefore = 0, Subject = ''service_2'',
      TokenClaims.Method = ''GET'', TokenClaims.Path = ''/itm/123''\<rparr>"

definition example_jwt :: "(string, string) JWT" where
  "example_jwt =
     \<lparr>ParseRSAPrivateKeyFromPEM =
        (\<lambda>pem. if pem = ''PRIVATE KEY OF service_1'' then Inr ''private 1''
               else Inl (ErrorString ''Invalid Key: Key must be PEM encoded PKCS1 or PKCS8 private key'')),
      ParseRSAPublicKeyFromPEM =
        (\<lambda>pem. if pem = ''PUBLIC KEY OF service_1'' then Inr ''public 1''
               else Inl (ErrorString ''Invalid Key: Key must be PEM encoded PKCS1 or PKCS8 private key'')),
      SignedString =
        (\<lambda>key claims.
           if key = ''private 1'' \<and> claims = example_claims then Inr ''TOKEN1''
           else if key = ''private 1'' \<and> claims = example_claims\<lparr>ExpiresAt := 0\<rparr> then Inr ''TOKEN0''
           else Inl (ErrorString ''key is invalid'')),
      ParseUnverified =
        (\<lambda>tokenString.
           if tokenString = ''TOKEN1'' then Inr (SigningMethodRSA ''RS256'', example_claims)
           else if tokenString = ''TOKEN0''
           then Inr (SigningMethodRSA ''RS256'', example_claims\<lparr>ExpiresAt := 0\<rparr>)
           else Inl (ValidationError None 1 ''token contains an invalid number of segments'')),
      Verify =
        (\<lambda>tokenString key.
           if (tokenString = ''TOKEN1'' \<or> tokenString = ''TOKEN0'') \<and> key = ''public 1'' then None
           else Some (ErrorString ''crypto/rsa: verification error''))\<rparr>"

definition example_Signer :: Signer where
  "example_Signer =
     \<lparr>Signer.Issuer = ''service_1'', PrivateRSAKey = ''PRIVATE KEY OF service_1'', TTL = 0,
      TokenSetter = None\<rparr>"

definition example_keychain :: FileProvider where
  "example_keychain =
     \<lparr>FileProvider.Path = ''keys'', RefreshRate = 0,
      data = [''service_1'' \<mapsto> ''PUBLIC KEY OF service_1'']\<rparr>"

definition example_Validator :: SignatureValidator where
  "example_Validator =
     \<lparr>SignatureValidator.Subject = ''service_2'',
      KeyProvider = Some (FileProvider_GetPublicKey example_keychain),
      Token = None, OnError = False\<rparr>"

definition example_Request :: Request where
  "example_Request =
     \<lparr>Request.Method = ''GET'', URL = Some \<lparr>URL.Path = ''/itm/123''\<rparr>, Header = Some Map.empty\<rparr>"

definition example_signed_Request :: Request where
  "example_signed_Request =
     example_Request\<lparr>Header := Some [''Authorization'' \<mapsto> [''Bearer TOKEN1'']]\<rparr>"

definition example_unexpiring_Request :: Request where
  "example_unexpiring_Request =
     example_Request\<lparr>Header := Some [''Authorization'' \<mapsto> [''Bearer TOKEN0'']]\<rparr>"

definition example_Basic_Request :: Request where
  "example_Basic_Request =
     example_Request\<lparr>Header := Some [''Authorization'' \<mapsto> [''Basic dXNlcjpwYXNz'']]\<rparr>"

text \<open>The time of signing: half a second before the second 1623617697 begins.\<close>

definition example_now :: int where
  "example_now = 1623617696500000000"

section \<open>The Bearer carrier: embedding and extracting\<close>

lemma FindStringSubmatch_Bearer_token:
  "CHR 0x0A \<notin> set token \<Longrightarrow>
     FindStringSubmatch_Bearer (''Bearer '' @ token) = [''Bearer '' @ token, token]"
  by (simp add: FindStringSubmatch_Bearer_def HasPrefix_def)

text \<open>
  Claim C9, as amended: for every request whose header map is allocated and holds no
  \<^verbatim>\<open>Authorization\<close> value, and every non-empty token without a newline, \<open>Bearer_Set\<close>
  returns no error and a following \<open>Bearer_Get\<close> returns exactly that token.
\<close>

theorem Bearer_Set_Get_roundtrip:
  assumes "Header r = Some m"
    and "m ''Authorization'' = None \<or> m ''Authorization'' = Some []"
    and "token \<noteq> []"
    and "CHR 0x0A \<notin> set token"
  shows "Bearer_Set r token =
           Return (None, r\<lparr>Header := Some (m(''Authorization'' \<mapsto> [''Bearer '' @ token]))\<rparr>)
       \<and> Bearer_Get (r\<lparr>Header := Some (m(''Authorization'' \<mapsto> [''Bearer '' @ token]))\<rparr>)
           = Inr token"
proof
  from assms(1,2)
  show "Bearer_Set r token =
          Return (None, r\<lparr>Header := Some (m(''Authorization'' \<mapsto> [''Bearer '' @ token]))\<rparr>)"
    by (auto simp: Bearer_Set_def Header_Add_def)
next
  have "Header_Get (Some (m(''Authorization'' \<mapsto> [''Bearer '' @ token]))) ''Authorization''
          = ''Bearer '' @ token"
    by (simp add: Header_Get_def)
  with assms(3,4)
  show "Bearer_Get (r\<lparr>Header := Some (m(''Authorization'' \<mapsto> [''Bearer '' @ token]))\<rparr>)
          = Inr token"
    by (simp add: Bearer_Get_def FindStringSubmatch_Bearer_token del: append.simps)
qed

theorem Bearer_Set_Get_roundtrip_witness:
  "Bearer_Set \<lparr>Request.Method = ''GET'', URL = Some \<lparr>URL.Path = ''/some/path''\<rparr>, Header = Some Map.empty\<rparr> ''TOKEN''
     = Return (None, \<lparr>Request.Method = ''GET'', URL = Some \<lparr>URL.Path = ''/some/path''\<rparr>,
                      Header = Some [''Authorization'' \<mapsto> [''Bearer TOKEN'']]\<rparr>)
   \<and> Bearer_Get \<lparr>Request.Method = ''GET'', URL = Some \<lparr>URL.Path = ''/some/path''\<rparr>,
                      Header = Some [''Authorization'' \<mapsto> [''Bearer TOKEN'']]\<rparr> = Inr ''TOKEN''"
  using Bearer_Set_Get_roundtrip
    [of "\<lparr>Request.Method = ''GET'', URL = Some \<lparr>URL.Path = ''/some/path''\<rparr>, Header = Some Map.empty\<rparr>"
        Map.empty "''TOKEN''"]
  by simp

text \<open>
  Claim C9 as stated fails for a request whose header map is nil (a request built as a
  struct literal, as the package's own test of \<^verbatim>\<open>Get\<close> builds it): its
  \<^verbatim>\<open>Authorization\<close> header is unset, and \<open>Bearer_Set\<close> panics instead of returning.
\<close>

theorem Bearer_Set_nil_Header_counterexample:
  "Header_Get (Header \<lparr>Request.Method = ''GET'', URL = None, Header = None\<rparr>) ''Authorization'' = []
   \<and> Bearer_Set \<lparr>Request.Method = ''GET'', URL = None, Header = None\<rparr> ''TOKEN''
       = Panic ''assignment to entry in nil map''"
  by (simp add: Header_Get_def Bearer_Set_def Header_Add_def)



section \<open>The keychain: one refresh\<close>

subsection \<open>Suffix and prefix\<close>





lemma FileProvider_update_loop_fails:
  "\<exists>f\<in>set files. HasSuffix f ''_rsa_public.pem'' \<and> (\<exists>e. ReadFile io (Join io dir f) = Inl e) \<Longrightarrow>
   \<exists>err. FileProvider_update_loop io dir files newVal = Inl err"
proof (induction files arbitrary: newVal)
  case Nil
  then show ?case by simp
next
  case (Cons f files)
  show ?case
  proof (cases "HasSuffix f ''_rsa_public.pem''")
    case False
    with Cons show ?thesis by auto
  next
    case True
    show ?thesis
    proof (cases "ReadFile io (Join io dir f)")
      case (Inl e)
      with True show ?thesis by simp
    next
      case (Inr v)
      with True Cons.prems
      have "\<exists>g\<in>set files. HasSuffix g ''_rsa_public.pem'' \<and> (\<exists>e. ReadFile io (Join io dir g) = Inl e)"
        by auto
      from Cons.IH [OF this] Inr True show ?thesis by simp
    qed
  qed
qed

lemma FileProvider_update_error_keeps:
  "FileProvider_update io p = (Some err, p') \<Longrightarrow> p' = p"
  by (auto simp: FileProvider_update_def split: sum.splits)





lemma slash_not_in_suffix: "CHR ''/'' \<notin> set ''_rsa_public.pem''"
  by simp



lemma S3Provider_update_loop_fails:
  "\<exists>k\<in>set contents. HasSuffix k ''_rsa_public.pem'' \<and>
       ((\<exists>e. GetObject s3 b k = Inl e) \<or> (\<exists>e. GetObject s3 b k = Inr (Inl e))) \<Longrightarrow>
   \<exists>err. S3Provider_update_loop s3 b pref contents newVal = Inl err"
proof (induction contents arbitrary: newVal)
  case Nil
  then show ?case by simp
next
  case (Cons k contents)
  show ?case
  proof (cases "HasSuffix k ''_rsa_public.pem''")
    case False
    with Cons show ?thesis by auto
  next
    case True
    show ?thesis
    proof (cases "GetObject s3 b k")
      case (Inl e)
      with True show ?thesis by simp
    next
      case body: (Inr body)
      show ?thesis
      proof (cases body)
        case (Inl e)
        with True body show ?thesis by simp
      next
        case (Inr dat)
        with True body Cons.prems
        have "\<exists>g\<in>set contents. HasSuffix g ''_rsa_public.pem'' \<and>
               ((\<exists>e. GetObject s3 b g = Inl e) \<or> (\<exists>e. GetObject s3 b g = Inr (Inl e)))"
          by auto
        from Cons.IH [OF this] Inr body True show ?thesis by (simp add: Let_def)
      qed
    qed
  qed
qed

lemma S3Provider_update_error_keeps:
  "S3Provider_update s3 p = (Some err, p') \<Longrightarrow> p' = p"
  by (auto simp: S3Provider_update_def Let_def split: sum.splits)


subsection \<open>A refresh that fails\<close>

lemma example_dir_unreadable_update:
  "FileProvider_update example_dir_unreadable example_FileProvider
     = (Some (ErrorString ''can't read file: permission denied''), example_FileProvider)"
  by (simp add: FileProvider_update_def example_dir_unreadable_def example_dir_def
      example_FileProvider_def HasSuffix_def TrimSuffix_def)

lemma example_bucket_unreadable_update:
  "S3Provider_update example_bucket_unreadable example_S3Provider
     = (Some (ErrorString ''can't read key file `s3://bucket/keys/b_rsa_public.pem`: connection reset''),
        example_S3Provider)"
  by (simp add: S3Provider_update_def example_bucket_unreadable_def example_bucket_def
      example_S3Provider_def HasSuffix_def TrimSuffix_def)

text \<open>
  Claim C5: when listing the Key Source fails, or reading any one matching key fails, the
  refresh returns an error and the provider is exactly what it was before, so every
  issuer resolves as before; and whenever a refresh returns an error, the provider is
  unchanged. For the file provider and for the S3 provider.
\<close>

theorem update_failure_keeps_mapping:
  "((\<exists>e. ReadDir io (FileProvider.Path p) = Inl e) \<or>
    (\<exists>files. ReadDir io (FileProvider.Path p) = Inr files \<and>
       (\<exists>f\<in>set files. HasSuffix f ''_rsa_public.pem'' \<and>
          (\<exists>e. ReadFile io (Join io (FileProvider.Path p) f) = Inl e)))
    \<longrightarrow> (\<exists>err. FileProvider_update io p = (Some err, p)))
   \<and> (fst (FileProvider_update io p) \<noteq> None \<longrightarrow>
        snd (FileProvider_update io p) = p \<and>
        (\<forall>i. FileProvider_GetPublicKey (snd (FileProvider_update io p)) i = FileProvider_GetPublicKey p i))
   \<and> ((\<exists>e. ListObjectsV2 s3 (Bucket q) (S3Provider.Path q @ ''/'') = Inl e) \<or>
    (\<exists>contents. ListObjectsV2 s3 (Bucket q) (S3Provider.Path q @ ''/'') = Inr contents \<and>
       (\<exists>k\<in>set contents. HasSuffix k ''_rsa_public.pem'' \<and>
          ((\<exists>e. GetObject s3 (Bucket q) k = Inl e) \<or> (\<exists>e. GetObject s3 (Bucket q) k = Inr (Inl e)))))
    \<longrightarrow> (\<exists>err. S3Provider_update s3 q = (Some err, q)))
   \<and> (fst (S3Provider_update s3 q) \<noteq> None \<longrightarrow>
        snd (S3Provider_update s3 q) = q \<and>
        (\<forall>i. S3Provider_GetPublicKey (snd (S3Provider_update s3 q)) i = S3Provider_GetPublicKey q i))"
proof (intro conjI impI)
  assume "(\<exists>e. ReadDir io (FileProvider.Path p) = Inl e) \<or>
    (\<exists>files. ReadDir io (FileProvider.Path p) = Inr files \<and>
       (\<exists>f\<in>set files. HasSuffix f ''_rsa_public.pem'' \<and>
          (\<exists>e. ReadFile io (Join io (FileProvider.Path p) f) = Inl e)))"
  then show "\<exists>err. FileProvider_update io p = (Some err, p)"
  proof
    assume "\<exists>e. ReadDir io (FileProvider.Path p) = Inl e"
    then show ?thesis by (auto simp: FileProvider_update_def)
  next
    assume "\<exists>files. ReadDir io (FileProvider.Path p) = Inr files \<and>
       (\<exists>f\<in>set files. HasSuffix f ''_rsa_public.pem'' \<and>
          (\<exists>e. ReadFile io (Join io (FileProvider.Path p) f) = Inl e))"
    then obtain files where l: "ReadDir io (FileProvider.Path p) = Inr files"
      and "\<exists>f\<in>set files. HasSuffix f ''_rsa_public.pem'' \<and>
          (\<exists>e. ReadFile io (Join io (FileProvider.Path p) f) = Inl e)" by blast
    from FileProvider_update_loop_fails [OF this(2), of Map.empty]
    obtain err where "FileProvider_update_loop io (FileProvider.Path p) files Map.empty = Inl err" ..
    with l show ?thesis by (simp add: FileProvider_update_def)
  qed
next
  assume "fst (FileProvider_update io p) \<noteq> None"
  then obtain err where "FileProvider_update io p = (Some err, snd (FileProvider_update io p))"
    by (metis not_None_eq prod.collapse)
  then show keep: "snd (FileProvider_update io p) = p" by (rule FileProvider_update_error_keeps)
  then show "\<forall>i. FileProvider_GetPublicKey (snd (FileProvider_update io p)) i = FileProvider_GetPublicKey p i"
    by simp
next
  assume "(\<exists>e. ListObjectsV2 s3 (Bucket q) (S3Provider.Path q @ ''/'') = Inl e) \<or>
    (\<exists>contents. ListObjectsV2 s3 (Bucket q) (S3Provider.Path q @ ''/'') = Inr contents \<and>
       (\<exists>k\<in>set contents. HasSuffix k ''_rsa_public.pem'' \<and>
          ((\<exists>e. GetObject s3 (Bucket q) k = Inl e) \<or> (\<exists>e. GetObject s3 (Bucket q) k = Inr (Inl e)))))"
  then show "\<exists>err. S3Provider_update s3 q = (Some err, q)"
  proof
    assume "\<exists>e. ListObjectsV2 s3 (Bucket q) (S3Provider.Path q @ ''/'') = Inl e"
    then show ?thesis by (auto simp: S3Provider_update_def)
  next
    assume "\<exists>contents. ListObjectsV2 s3 (Bucket q) (S3Provider.Path q @ ''/'') = Inr contents \<and>
       (\<exists>k\<in>set contents. HasSuffix k ''_rsa_public.pem'' \<and>
          ((\<exists>e. GetObject s3 (Bucket q) k = Inl e) \<or> (\<exists>e. GetObject s3 (Bucket q) k = Inr (Inl e))))"
    then obtain contents where l: "ListObjectsV2 s3 (Bucket q) (S3Provider.Path q @ ''/'') = Inr contents"
      and "\<exists>k\<in>set contents. HasSuffix k ''_rsa_public.pem'' \<and>
          ((\<exists>e. GetObject s3 (Bucket q) k = Inl e) \<or> (\<exists>e. GetObject s3 (Bucket q) k = Inr (Inl e)))"
      by blast
    from S3Provider_update_loop_fails [OF this(2), of "S3Provider.Path q @ ''/''" Map.empty]
    obtain err where
      "S3Provider_update_loop s3 (Bucket q) (S3Provider.Path q @ ''/'') contents Map.empty = Inl err" ..
    with l show ?thesis by (simp add: S3Provider_update_def)
  qed
next
  assume "fst (S3Provider_update s3 q) \<noteq> None"
  then obtain err where "S3Provider_update s3 q = (Some err, snd (S3Provider_update s3 q))"
    by (metis not_None_eq prod.collapse)
  then show keep: "snd (S3Provider_update s3 q) = q" by (rule S3Provider_update_error_keeps)
  then show "\<forall>i. S3Provider_GetPublicKey (snd (S3Provider_update s3 q)) i = S3Provider_GetPublicKey q i"
    by simp
qed

theorem update_failure_keeps_mapping_witness:
  "ReadFile example_dir_unreadable
      (Join example_dir_unreadable (FileProvider.Path example_FileProvider) ''b_rsa_public.pem'')
     = Inl (ErrorString ''permission denied'')
   \<and> GetObject example_bucket_unreadable (Bucket example_S3Provider) ''keys/b_rsa_public.pem''
     = Inr (Inl (ErrorString ''connection reset''))
   \<and> FileProvider_update example_dir_unreadable example_FileProvider
     = (Some (ErrorString ''can't read file: permission denied''), example_FileProvider)
   \<and> FileProvider_GetPublicKey (snd (FileProvider_update example_dir_unreadable example_FileProvider)) ''b''
       = Inr ''OLD B''
   \<and> S3Provider_update example_bucket_unreadable example_S3Provider
     = (Some (ErrorString ''can't read key file `s3://bucket/keys/b_rsa_public.pem`: connection reset''),
        example_S3Provider)
   \<and> S3Provider_GetPublicKey (snd (S3Provider_update example_bucket_unreadable example_S3Provider)) ''b''
       = Inr ''OLD B''"
proof -
  have old: "FileProvider_GetPublicKey example_FileProvider ''b'' = Inr ''OLD B''"
    "S3Provider_GetPublicKey example_S3Provider ''b'' = Inr ''OLD B''"
    by (simp_all add: FileProvider_GetPublicKey_def S3Provider_GetPublicKey_def
        example_FileProvider_def example_S3Provider_def)
  from update_failure_keeps_mapping
    [of example_dir_unreadable example_FileProvider example_bucket_unreadable example_S3Provider]
  show ?thesis
    by (simp add: example_dir_unreadable_update example_bucket_unreadable_update old)
      (simp add: example_dir_unreadable_def example_dir_def example_bucket_unreadable_def
        example_bucket_def example_FileProvider_def example_S3Provider_def)
qed

subsection \<open>A refresh that succeeds\<close>


















section \<open>The keychain: the refresh loop\<close>

lemma select_stmt_ready:
  "select_stmt m nxt = Some c \<Longrightarrow> c \<in> set (ready_cases m nxt)"
  by (auto simp: select_stmt_def Let_def split: if_splits)

lemma select_stmt_CtxDone: "select_stmt m nxt = Some CtxDone \<Longrightarrow> ctx_done m"
  using select_stmt_ready [of m nxt CtxDone] by (auto simp: ready_cases_def split: if_splits)

lemma select_stmt_NextCh: "select_stmt m nxt = Some NextCh \<Longrightarrow> nxt"
  using select_stmt_ready [of m nxt NextCh] by (auto simp: ready_cases_def split: if_splits)

lemma Run_loop_append:
  "Run_loop update p nxt ms = InSelect p1 nxt1 \<Longrightarrow>
   Run_loop update p nxt (ms @ rest) = Run_loop update p1 nxt1 rest"
proof (induction ms arbitrary: p nxt)
  case Nil
  then show ?case by simp
next
  case (Cons m ms)
  show ?case
  proof (cases "select_stmt m nxt")
    case None
    with Cons show ?thesis by simp
  next
    case (Some c)
    show ?thesis
    proof (cases c)
      case CtxDone
      with Some Cons.prems show ?thesis by simp
    next
      case TickerC
      with Some Cons show ?thesis by (cases nxt) simp_all
    next
      case NextCh
      obtain e p' where u: "update (source m) p = (e, p')" by (cases "update (source m) p")
      with NextCh Some Cons show ?thesis by (cases e) simp_all
    qed
  qed
qed

lemma Run_loop_returns_None:
  "Run_loop update p nxt ms = Returned None p' \<Longrightarrow> \<exists>m\<in>set ms. ctx_done m"
proof (induction ms arbitrary: p nxt)
  case Nil
  then show ?case by simp
next
  case (Cons m ms)
  show ?case
  proof (cases "select_stmt m nxt")
    case None
    with Cons show ?thesis by auto
  next
    case (Some c)
    show ?thesis
    proof (cases c)
      case CtxDone
      with Some select_stmt_CtxDone show ?thesis by auto
    next
      case TickerC
      with Some Cons show ?thesis by (cases nxt) auto
    next
      case NextCh
      obtain e p1 where u: "update (source m) p = (e, p1)" by (cases "update (source m) p")
      with NextCh Some Cons show ?thesis by (cases e) auto
    qed
  qed
qed

lemma select_stmt_idle:
  "ctx_done m \<Longrightarrow> \<not> tick m \<Longrightarrow> select_stmt m False = Some CtxDone"
  by (simp add: select_stmt_def ready_cases_def)

lemma FileProvider_Run_InSelect:
  "FileProvider_Run p ms = Return (InSelect p1 nxt1) \<Longrightarrow>
   FileProvider_Run p (ms @ rest) = Return (Run_loop FileProvider_update p1 nxt1 rest)"
  by (auto simp: FileProvider_Run_def Let_def Run_loop_append split: if_splits)

lemma S3Provider_Run_InSelect:
  "S3Provider_Run cfg q ms = Return (InSelect q1 nxt1) \<Longrightarrow>
   S3Provider_Run cfg q (ms @ rest) = Return (Run_loop S3Provider_update q1 nxt1 rest)"
  by (auto simp: S3Provider_Run_def Let_def Run_loop_append split: if_splits)

text \<open>
  A tick taken while \<^verbatim>\<open>next\<close> still holds a value blocks the loop in the send, whatever
  happens later: a cancellation no longer makes \<^verbatim>\<open>Run\<close> return.
\<close>

lemma Run_loop_blocked:
  "select_stmt m True = Some TickerC \<Longrightarrow> Run_loop update p True (m # rest) = BlockedOnSend p"
  by simp

lemma FileProvider_Run_returns_None:
  "FileProvider_Run p ms = Return (Returned None p') \<Longrightarrow> \<exists>m\<in>set ms. ctx_done m"
  by (auto simp: FileProvider_Run_def Let_def split: if_splits dest: Run_loop_returns_None)

lemma S3Provider_Run_returns_None:
  "S3Provider_Run cfg q ms = Return (Returned None q') \<Longrightarrow> \<exists>m\<in>set ms. ctx_done m"
  by (auto simp: S3Provider_Run_def Let_def split: if_splits dest: Run_loop_returns_None)

lemma select_stmt_examples:
  "select_stmt (moment_quiet src) True = Some NextCh"
  "select_stmt (moment_quiet src) False = None"
  "select_stmt (moment_tick src) False = Some TickerC"
  "select_stmt (moment_tick src) True = Some TickerC"
  "select_stmt (moment_cancelled 0 src) nxt = Some CtxDone"
  "select_stmt (moment_cancelled (Suc 0) src) True = Some NextCh"
  by (simp_all add: select_stmt_def ready_cases_def moment_quiet_def moment_tick_def
      moment_cancelled_def)

lemma moment_cancelled_fields:
  "ctx_done (moment_cancelled r src)" "\<not> tick (moment_cancelled r src)"
  by (simp_all add: moment_cancelled_def)

lemma source_examples:
  "source (moment_quiet src) = src" "source (moment_tick src) = src"
  "source (moment_cancelled r src) = src"
  by (simp_all add: moment_quiet_def moment_tick_def moment_cancelled_def)

lemma example_started:
  "FileProvider.RefreshRate (example_FileProvider\<lparr>FileProvider.RefreshRate := 10 * Second\<rparr>) > 0"
  "S3Provider.RefreshRate (example_S3Provider\<lparr>S3Provider.RefreshRate := 10 * Second\<rparr>) > 0"
  by (simp_all add: Second_def)


lemma example_updates:
  "FileProvider_update example_dir (example_FileProvider\<lparr>FileProvider.RefreshRate := 10 * Second\<rparr>)
     = (None, example_FileProvider\<lparr>FileProvider.RefreshRate := 10 * Second,
                FileProvider.data := [''a'' \<mapsto> ''KEY A'', ''b'' \<mapsto> ''KEY B'']\<rparr>)"
  "FileProvider_update example_dir_unreadable
       (example_FileProvider\<lparr>FileProvider.RefreshRate := 10 * Second,
                FileProvider.data := [''a'' \<mapsto> ''KEY A'', ''b'' \<mapsto> ''KEY B'']\<rparr>)
     = (Some (ErrorString ''can't read file: permission denied''),
        example_FileProvider\<lparr>FileProvider.RefreshRate := 10 * Second,
                FileProvider.data := [''a'' \<mapsto> ''KEY A'', ''b'' \<mapsto> ''KEY B'']\<rparr>)"
  "FileProvider_update example_dir_unreadable
       (example_FileProvider\<lparr>FileProvider.RefreshRate := 10 * Second\<rparr>)
     = (Some (ErrorString ''can't read file: permission denied''),
        example_FileProvider\<lparr>FileProvider.RefreshRate := 10 * Second\<rparr>)"
  "S3Provider_update example_bucket (example_S3Provider\<lparr>S3Provider.RefreshRate := 10 * Second\<rparr>)
     = (None, example_S3Provider\<lparr>S3Provider.RefreshRate := 10 * Second,
                S3Provider.data := [''a'' \<mapsto> ''KEY A'', ''b'' \<mapsto> ''KEY B'']\<rparr>)"
  "S3Provider_update example_bucket_unreadable
       (example_S3Provider\<lparr>S3Provider.RefreshRate := 10 * Second,
                S3Provider.data := [''a'' \<mapsto> ''KEY A'', ''b'' \<mapsto> ''KEY B'']\<rparr>)
     = (Some (ErrorString ''can't read key file `s3://bucket/keys/b_rsa_public.pem`: connection reset''),
        example_S3Provider\<lparr>S3Provider.RefreshRate := 10 * Second,
                S3Provider.data := [''a'' \<mapsto> ''KEY A'', ''b'' \<mapsto> ''KEY B'']\<rparr>)"
  by (simp_all add: FileProvider_update_def S3Provider_update_def example_dir_unreadable_def
      example_dir_def example_bucket_unreadable_def example_bucket_def
      example_FileProvider_def example_S3Provider_def HasSuffix_def TrimSuffix_def
      HasPrefix_def TrimPrefix_def)

lemma example_Run_start:
  "FileProvider_Run example_FileProvider ms
     = Return (Run_loop FileProvider_update
         (example_FileProvider\<lparr>FileProvider.RefreshRate := 10 * Second\<rparr>) True ms)"
  "S3Provider_Run None example_S3Provider ns
     = Return (Run_loop S3Provider_update
         (example_S3Provider\<lparr>S3Provider.RefreshRate := 10 * Second\<rparr>) True ns)"
  by (simp_all add: FileProvider_Run_def S3Provider_Run_def Let_def Second_def
      example_FileProvider_def example_S3Provider_def)

text \<open>
  Claim C7, as amended: in every execution of \<open>Run\<close>, of the file provider and of the S3
  provider, a refresh that returns an error makes \<open>Run\<close> return that error at once, with
  the provider as it was and whatever the schedule holds afterwards (no further refresh
  runs); when the context is cancelled while the loop waits in its \<^verbatim>\<open>select\<close> with no
  refresh pending in \<^verbatim>\<open>next\<close> and no tick ready, \<open>Run\<close> returns no error, as it does
  whenever its \<^verbatim>\<open>select\<close> takes the cancellation case; and \<open>Run\<close> returns no error only in
  an execution in which the context was cancelled.
\<close>

theorem Run_returns_refresh_error_nil_on_cancellation:
  "(FileProvider_Run p ms = Return (InSelect p1 nxt1) \<and> select_stmt m nxt1 = Some NextCh \<and>
      FileProvider_update (source m) p1 = (Some err, p2) \<longrightarrow>
        FileProvider_Run p (ms @ m # rest) = Return (Returned (Some err) p1))
   \<and> (FileProvider_Run p idle_ms = Return (InSelect idle_p False) \<and> ctx_done idle_m \<and> \<not> tick idle_m \<longrightarrow>
        FileProvider_Run p (idle_ms @ idle_m # rest) = Return (Returned None idle_p))
   \<and> (FileProvider_Run p ms' = Return (InSelect p1' nxt1') \<and> select_stmt m' nxt1' = Some CtxDone \<longrightarrow>
        FileProvider_Run p (ms' @ m' # rest) = Return (Returned None p1'))
   \<and> (FileProvider_Run p ms'' = Return (Returned None p'') \<longrightarrow> (\<exists>m\<in>set ms''. ctx_done m))
   \<and> (S3Provider_Run cfg q ns = Return (InSelect q1 nxt2) \<and> select_stmt n nxt2 = Some NextCh \<and>
      S3Provider_update (source n) q1 = (Some err', q2) \<longrightarrow>
        S3Provider_Run cfg q (ns @ n # rest') = Return (Returned (Some err') q1))
   \<and> (S3Provider_Run cfg q idle_ns = Return (InSelect idle_q False) \<and> ctx_done idle_n \<and> \<not> tick idle_n \<longrightarrow>
        S3Provider_Run cfg q (idle_ns @ idle_n # rest') = Return (Returned None idle_q))
   \<and> (S3Provider_Run cfg q ns' = Return (InSelect q1' nxt2') \<and> select_stmt n' nxt2' = Some CtxDone \<longrightarrow>
        S3Provider_Run cfg q (ns' @ n' # rest') = Return (Returned None q1'))
   \<and> (S3Provider_Run cfg q ns'' = Return (Returned None q'') \<longrightarrow> (\<exists>n\<in>set ns''. ctx_done n))"
proof (intro conjI impI)
  assume a: "FileProvider_Run p ms = Return (InSelect p1 nxt1) \<and> select_stmt m nxt1 = Some NextCh \<and>
      FileProvider_update (source m) p1 = (Some err, p2)"
  then have "p2 = p1" using FileProvider_update_error_keeps by blast
  with a FileProvider_Run_InSelect [of p ms p1 nxt1 "m # rest"]
  show "FileProvider_Run p (ms @ m # rest) = Return (Returned (Some err) p1)" by simp
next
  assume a: "FileProvider_Run p idle_ms = Return (InSelect idle_p False) \<and> ctx_done idle_m \<and> \<not> tick idle_m"
  then have "select_stmt idle_m False = Some CtxDone" by (simp add: select_stmt_idle)
  with a FileProvider_Run_InSelect [of p idle_ms idle_p False "idle_m # rest"]
  show "FileProvider_Run p (idle_ms @ idle_m # rest) = Return (Returned None idle_p)" by simp
next
  assume "FileProvider_Run p ms' = Return (InSelect p1' nxt1') \<and> select_stmt m' nxt1' = Some CtxDone"
  with FileProvider_Run_InSelect [of p ms' p1' nxt1' "m' # rest"]
  show "FileProvider_Run p (ms' @ m' # rest) = Return (Returned None p1')" by simp
next
  assume "FileProvider_Run p ms'' = Return (Returned None p'')"
  then show "\<exists>m\<in>set ms''. ctx_done m" by (rule FileProvider_Run_returns_None)
next
  assume a: "S3Provider_Run cfg q ns = Return (InSelect q1 nxt2) \<and> select_stmt n nxt2 = Some NextCh \<and>
      S3Provider_update (source n) q1 = (Some err', q2)"
  then have "q2 = q1" using S3Provider_update_error_keeps by blast
  with a S3Provider_Run_InSelect [of cfg q ns q1 nxt2 "n # rest'"]
  show "S3Provider_Run cfg q (ns @ n # rest') = Return (Returned (Some err') q1)" by simp
next
  assume a: "S3Provider_Run cfg q idle_ns = Return (InSelect idle_q False) \<and> ctx_done idle_n \<and> \<not> tick idle_n"
  then have "select_stmt idle_n False = Some CtxDone" by (simp add: select_stmt_idle)
  with a S3Provider_Run_InSelect [of cfg q idle_ns idle_q False "idle_n # rest'"]
  show "S3Provider_Run cfg q (idle_ns @ idle_n # rest') = Return (Returned None idle_q)" by simp
next
  assume "S3Provider_Run cfg q ns' = Return (InSelect q1' nxt2') \<and> select_stmt n' nxt2' = Some CtxDone"
  with S3Provider_Run_InSelect [of cfg q ns' q1' nxt2' "n' # rest'"]
  show "S3Provider_Run cfg q (ns' @ n' # rest') = Return (Returned None q1')" by simp
next
  assume "S3Provider_Run cfg q ns'' = Return (Returned None q'')"
  then show "\<exists>n\<in>set ns''. ctx_done n" by (rule S3Provider_Run_returns_None)
qed

theorem Run_returns_refresh_error_nil_on_cancellation_witness:
  "FileProvider_Run example_FileProvider
      [moment_quiet example_dir, moment_tick example_dir, moment_quiet example_dir_unreadable,
       moment_quiet example_dir]
     = Return (Returned (Some (ErrorString ''can't read file: permission denied''))
         (example_FileProvider\<lparr>FileProvider.RefreshRate := 10 * Second,
                FileProvider.data := [''a'' \<mapsto> ''KEY A'', ''b'' \<mapsto> ''KEY B'']\<rparr>))
   \<and> FileProvider_Run example_FileProvider
      [moment_quiet example_dir, moment_cancelled 0 example_dir, moment_quiet example_dir]
     = Return (Returned None
         (example_FileProvider\<lparr>FileProvider.RefreshRate := 10 * Second,
                FileProvider.data := [''a'' \<mapsto> ''KEY A'', ''b'' \<mapsto> ''KEY B'']\<rparr>))
   \<and> list_ex ctx_done [moment_quiet example_dir, moment_cancelled 0 example_dir]
   \<and> FileProvider_Run example_FileProvider
      [moment_quiet example_dir, moment_cancelled 7 example_dir_unreadable, moment_quiet example_dir]
     = Return (Returned None
         (example_FileProvider\<lparr>FileProvider.RefreshRate := 10 * Second,
                FileProvider.data := [''a'' \<mapsto> ''KEY A'', ''b'' \<mapsto> ''KEY B'']\<rparr>))
   \<and> S3Provider_Run None example_S3Provider
      [moment_quiet example_bucket, moment_tick example_bucket, moment_quiet example_bucket_unreadable,
       moment_quiet example_bucket]
     = Return (Returned
         (Some (ErrorString ''can't read key file `s3://bucket/keys/b_rsa_public.pem`: connection reset''))
         (example_S3Provider\<lparr>S3Provider.RefreshRate := 10 * Second,
                S3Provider.data := [''a'' \<mapsto> ''KEY A'', ''b'' \<mapsto> ''KEY B'']\<rparr>))
   \<and> S3Provider_Run None example_S3Provider
      [moment_quiet example_bucket, moment_cancelled 0 example_bucket, moment_quiet example_bucket]
     = Return (Returned None
         (example_S3Provider\<lparr>S3Provider.RefreshRate := 10 * Second,
                S3Provider.data := [''a'' \<mapsto> ''KEY A'', ''b'' \<mapsto> ''KEY B'']\<rparr>))
   \<and> list_ex ctx_done [moment_quiet example_bucket, moment_cancelled 0 example_bucket]
   \<and> S3Provider_Run None example_S3Provider
      [moment_quiet example_bucket, moment_cancelled 7 example_bucket_unreadable,
       moment_quiet example_bucket]
     = Return (Returned None
         (example_S3Provider\<lparr>S3Provider.RefreshRate := 10 * Second,
                S3Provider.data := [''a'' \<mapsto> ''KEY A'', ''b'' \<mapsto> ''KEY B'']\<rparr>))"
proof -
  let ?P1 = "example_FileProvider\<lparr>FileProvider.RefreshRate := 10 * Second,
                FileProvider.data := [''a'' \<mapsto> ''KEY A'', ''b'' \<mapsto> ''KEY B'']\<rparr>"
  let ?Q1 = "example_S3Provider\<lparr>S3Provider.RefreshRate := 10 * Second,
                S3Provider.data := [''a'' \<mapsto> ''KEY A'', ''b'' \<mapsto> ''KEY B'']\<rparr>"
  have f1: "FileProvider_Run example_FileProvider [moment_quiet example_dir, moment_tick example_dir]
              = Return (InSelect ?P1 True)"
    and f2: "FileProvider_Run example_FileProvider [moment_quiet example_dir] = Return (InSelect ?P1 False)"
    and f3: "FileProvider_Run example_FileProvider [moment_quiet example_dir, moment_cancelled 0 example_dir]
              = Return (Returned None ?P1)"
    by (simp_all add: example_Run_start select_stmt_examples source_examples example_updates)
  have s1: "S3Provider_Run None example_S3Provider [moment_quiet example_bucket, moment_tick example_bucket]
              = Return (InSelect ?Q1 True)"
    and s2: "S3Provider_Run None example_S3Provider [moment_quiet example_bucket]
              = Return (InSelect ?Q1 False)"
    and s3: "S3Provider_Run None example_S3Provider
               [moment_quiet example_bucket, moment_cancelled 0 example_bucket]
              = Return (Returned None ?Q1)"
    by (simp_all add: example_Run_start select_stmt_examples source_examples example_updates)
  note t = Run_returns_refresh_error_nil_on_cancellation
    [where p = example_FileProvider and ms = "[moment_quiet example_dir, moment_tick example_dir]"
       and ?p1.0 = ?P1 and ?nxt1.0 = True and m = "moment_quiet example_dir_unreadable"
       and err = "ErrorString ''can't read file: permission denied''" and ?p2.0 = ?P1
       and rest = "[moment_quiet example_dir]"
       and idle_ms = "[moment_quiet example_dir]" and idle_p = ?P1
       and idle_m = "moment_cancelled 7 example_dir_unreadable"
       and ms' = "[moment_quiet example_dir]" and p1' = ?P1 and nxt1' = False
       and m' = "moment_cancelled 0 example_dir"
       and ms'' = "[moment_quiet example_dir, moment_cancelled 0 example_dir]" and p'' = ?P1
       and cfg = None and q = example_S3Provider
       and ns = "[moment_quiet example_bucket, moment_tick example_bucket]"
       and ?q1.0 = ?Q1 and ?nxt2.0 = True and n = "moment_quiet example_bucket_unreadable"
       and err' = "ErrorString ''can't read key file `s3://bucket/keys/b_rsa_public.pem`: connection reset''"
       and ?q2.0 = ?Q1 and rest' = "[moment_quiet example_bucket]"
       and idle_ns = "[moment_quiet example_bucket]" and idle_q = ?Q1
       and idle_n = "moment_cancelled 7 example_bucket_unreadable"
       and ns' = "[moment_quiet example_bucket]" and q1' = ?Q1 and nxt2' = False
       and n' = "moment_cancelled 0 example_bucket"
       and ns'' = "[moment_quiet example_bucket, moment_cancelled 0 example_bucket]" and q'' = ?Q1]
  from t show ?thesis
    unfolding f1 f2 f3 s1 s2 s3
    by (simp add: select_stmt_examples source_examples example_updates list_ex_iff
        moment_cancelled_fields)
qed

text \<open>
  Claim C7 as stated fails: the context is cancelled before \<open>Run\<close> reaches its
  \<^verbatim>\<open>select\<close> for the first time, the channel \<^verbatim>\<open>next\<close> holds the initial value, the runtime
  picks the receive from \<^verbatim>\<open>next\<close>, the refresh fails, and \<open>Run\<close> returns the refresh error
  where the claim promises no error.
\<close>

theorem Run_returns_refresh_error_not_nil_counterexample:
  "ctx_done (moment_cancelled 1 example_dir_unreadable)
   \<and> FileProvider_Run example_FileProvider [moment_cancelled 1 example_dir_unreadable]
       = Return (Returned (Some (ErrorString ''can't read file: permission denied''))
           (example_FileProvider\<lparr>FileProvider.RefreshRate := 10 * Second\<rparr>))"
proof
  show "ctx_done (moment_cancelled 1 example_dir_unreadable)"
    by (simp add: moment_cancelled_def)
  show "FileProvider_Run example_FileProvider [moment_cancelled 1 example_dir_unreadable]
       = Return (Returned (Some (ErrorString ''can't read file: permission denied''))
           (example_FileProvider\<lparr>FileProvider.RefreshRate := 10 * Second\<rparr>))"
    by (simp add: example_Run_start select_stmt_examples source_examples example_updates)
qed

section \<open>The validator and the signer\<close>

lemma StandardClaims_Valid_None_iff:
  "StandardClaims_Valid now c = None \<longleftrightarrow>
     verifyExp (ExpiresAt c) now False \<and> verifyIat (IssuedAt c) now False
       \<and> verifyNbf (NotBefore c) now False"
  by (simp add: StandardClaims_Valid_def Let_def ValidationErrorExpired_def
      ValidationErrorIssuedAt_def ValidationErrorNotValidYet_def or_eq_0_iff)

lemma StandardClaims_Valid_Some:
  "StandardClaims_Valid now c = Some err \<Longrightarrow>
     \<exists>inner errors. err = ValidationError inner errors [] \<and> errors \<noteq> 0"
  by (auto simp: StandardClaims_Valid_def Let_def split: if_splits)

lemma keyFunc_Inr_iff:
  "keyFunc lib now keysProvider t = Inr key \<longleftrightarrow>
     StandardClaims_Valid (Unix now) (Claims t) = None
     \<and> (\<exists>alg. Token.Method t = SigningMethodRSA alg)
     \<and> (\<exists>pem. keysProvider (StandardClaims.Issuer (Claims t)) = Inr pem
              \<and> ParseRSAPublicKeyFromPEM lib pem = Inr key)"
  by (auto simp: keyFunc_def Let_def split: option.splits SigningMethod.splits sum.splits)

lemma ParseWithClaims_Inr_iff:
  "ParseWithClaims lib now tokenString kf = Inr tkn \<longleftrightarrow>
     (\<exists>mth c key.
        ParseUnverified lib tokenString = Inr (mth, c)
        \<and> kf \<lparr>Raw = tokenString, Token.Method = mth, Claims = c, Valid = False\<rparr> = Inr key
        \<and> StandardClaims_Valid now c = None
        \<and> Verify lib tokenString key = None
        \<and> tkn = \<lparr>Raw = tokenString, Token.Method = mth, Claims = c, Valid = True\<rparr>)"
proof (cases "ParseUnverified lib tokenString")
  case (Inl e)
  then show ?thesis by (simp add: ParseWithClaims_def)
next
  case (Inr mc)
  obtain mth c where mc: "mc = (mth, c)" by (cases mc)
  let ?t = "\<lparr>Raw = tokenString, Token.Method = mth, Claims = c, Valid = False\<rparr>"
  show ?thesis
  proof (cases "kf ?t")
    case (Inl e)
    with Inr mc show ?thesis by (cases e) (simp_all add: ParseWithClaims_def)
  next
    case key: (Inr key)
    show ?thesis
    proof (cases "StandardClaims_Valid now c")
      case None
      with Inr mc key show ?thesis
        by (cases "Verify lib tokenString key")
          (auto simp: ParseWithClaims_def Let_def ValidationErrorSignatureInvalid_def)
    next
      case (Some e)
      then obtain inner errors where e: "e = ValidationError inner errors []" and "errors \<noteq> 0"
        using StandardClaims_Valid_Some by blast
      with Inr mc key Some show ?thesis
        by (cases "Verify lib tokenString key")
          (auto simp: ParseWithClaims_def Let_def or_eq_0_iff)
    qed
  qed
qed

lemma handleError_not_next [simp]:
  "handleError s r err \<noteq> ServeHTTP_next r'" "ServeHTTP_next r' \<noteq> handleError s r err"
  by (simp_all add: handleError_def)

lemma handler_ServeHTTP_next_iff:
  "handler lib s keyProvider tokenGet now1 now2 r = Return (ServeHTTP_next r') \<longleftrightarrow>
     r' = r \<and>
     (\<exists>tok alg c pem key u.
        tokenGet r = Inr tok
        \<and> ParseUnverified lib tok = Inr (SigningMethodRSA alg, c)
        \<and> StandardClaims_Valid (Unix now1) c = None
        \<and> StandardClaims_Valid (Unix now2) c = None
        \<and> keyProvider (StandardClaims.Issuer c) = Inr pem
        \<and> ParseRSAPublicKeyFromPEM lib pem = Inr key
        \<and> Verify lib tok key = None
        \<and> Request.Method r = TokenClaims.Method c
        \<and> URL r = Some u \<and> URL.Path u = TokenClaims.Path c
        \<and> StandardClaims.Subject c = SignatureValidator.Subject s)"
proof (cases "tokenGet r")
  case (Inl e)
  then show ?thesis by (simp add: handler_def)
next
  case tok: (Inr tok)
  show ?thesis
  proof (cases "ParseWithClaims lib (Unix now2) tok (keyFunc lib now1 keyProvider)")
    case (Inl e)
    have "\<not> (\<exists>alg c pem key. ParseUnverified lib tok = Inr (SigningMethodRSA alg, c)
        \<and> StandardClaims_Valid (Unix now1) c = None
        \<and> StandardClaims_Valid (Unix now2) c = None
        \<and> keyProvider (StandardClaims.Issuer c) = Inr pem
        \<and> ParseRSAPublicKeyFromPEM lib pem = Inr key
        \<and> Verify lib tok key = None)"
    proof
      assume "\<exists>alg c pem key. ParseUnverified lib tok = Inr (SigningMethodRSA alg, c)
        \<and> StandardClaims_Valid (Unix now1) c = None
        \<and> StandardClaims_Valid (Unix now2) c = None
        \<and> keyProvider (StandardClaims.Issuer c) = Inr pem
        \<and> ParseRSAPublicKeyFromPEM lib pem = Inr key
        \<and> Verify lib tok key = None"
      then obtain alg c pem key where "ParseUnverified lib tok = Inr (SigningMethodRSA alg, c)"
        "StandardClaims_Valid (Unix now1) c = None" "StandardClaims_Valid (Unix now2) c = None"
        "keyProvider (StandardClaims.Issuer c) = Inr pem" "ParseRSAPublicKeyFromPEM lib pem = Inr key"
        "Verify lib tok key = None" by blast
      then have "ParseWithClaims lib (Unix now2) tok (keyFunc lib now1 keyProvider)
        = Inr \<lparr>Raw = tok, Token.Method = SigningMethodRSA alg, Claims = c, Valid = True\<rparr>"
        unfolding ParseWithClaims_Inr_iff keyFunc_Inr_iff by auto
      with Inl show False by simp
    qed
    with tok Inl show ?thesis by (auto simp: handler_def)
  next
    case (Inr tkn)
    then obtain mth c key where p: "ParseUnverified lib tok = Inr (mth, c)"
      and k: "keyFunc lib now1 keyProvider \<lparr>Raw = tok, Token.Method = mth, Claims = c, Valid = False\<rparr> = Inr key"
      and v2: "StandardClaims_Valid (Unix now2) c = None"
      and sig: "Verify lib tok key = None"
      and tkn: "tkn = \<lparr>Raw = tok, Token.Method = mth, Claims = c, Valid = True\<rparr>"
      unfolding ParseWithClaims_Inr_iff by blast
    from k obtain alg pem where v1: "StandardClaims_Valid (Unix now1) c = None"
      and mth: "mth = SigningMethodRSA alg"
      and pem: "keyProvider (StandardClaims.Issuer c) = Inr pem"
      and pub: "ParseRSAPublicKeyFromPEM lib pem = Inr key"
      unfolding keyFunc_Inr_iff by auto
    have h: "handler lib s keyProvider tokenGet now1 now2 r =
       (if Request.Method r \<noteq> TokenClaims.Method c then Return (handleError s r None)
        else (case URL r of
                None \<Rightarrow> Panic nil_dereference
              | Some u \<Rightarrow>
                  if URL.Path u \<noteq> TokenClaims.Path c
                     \<or> StandardClaims.Subject c \<noteq> SignatureValidator.Subject s
                  then Return (handleError s r None)
                  else Return (ServeHTTP_next r)))"
      using tok Inr tkn by (simp add: handler_def Let_def)
    show ?thesis
    proof
      assume "handler lib s keyProvider tokenGet now1 now2 r = Return (ServeHTTP_next r')"
      with h have "r' = r \<and> Request.Method r = TokenClaims.Method c \<and>
         (\<exists>u. URL r = Some u \<and> URL.Path u = TokenClaims.Path c)
         \<and> StandardClaims.Subject c = SignatureValidator.Subject s"
        by (auto split: if_splits option.splits)
      with tok p mth v1 v2 pem pub sig
      show "r' = r \<and>
     (\<exists>tok alg c pem key u.
        tokenGet r = Inr tok
        \<and> ParseUnverified lib tok = Inr (SigningMethodRSA alg, c)
        \<and> StandardClaims_Valid (Unix now1) c = None
        \<and> StandardClaims_Valid (Unix now2) c = None
        \<and> keyProvider (StandardClaims.Issuer c) = Inr pem
        \<and> ParseRSAPublicKeyFromPEM lib pem = Inr key
        \<and> Verify lib tok key = None
        \<and> Request.Method r = TokenClaims.Method c
        \<and> URL r = Some u \<and> URL.Path u = TokenClaims.Path c
        \<and> StandardClaims.Subject c = SignatureValidator.Subject s)" by blast
    next
      assume "r' = r \<and>
     (\<exists>tok alg c pem key u.
        tokenGet r = Inr tok
        \<and> ParseUnverified lib tok = Inr (SigningMethodRSA alg, c)
        \<and> StandardClaims_Valid (Unix now1) c = None
        \<and> StandardClaims_Valid (Unix now2) c = None
        \<and> keyProvider (StandardClaims.Issuer c) = Inr pem
        \<and> ParseRSAPublicKeyFromPEM lib pem = Inr key
        \<and> Verify lib tok key = None
        \<and> Request.Method r = TokenClaims.Method c
        \<and> URL r = Some u \<and> URL.Path u = TokenClaims.Path c
        \<and> StandardClaims.Subject c = SignatureValidator.Subject s)"
      with tok p h show "handler lib s keyProvider tokenGet now1 now2 r = Return (ServeHTTP_next r')"
        by auto
    qed
  qed
qed

lemma handler_binding_mismatch:
  assumes "tokenGet r = Inr tok"
    and "ParseWithClaims lib (Unix now2) tok (keyFunc lib now1 keyProvider) = Inr tkn"
    and "Request.Method r \<noteq> TokenClaims.Method (Claims tkn)
         \<or> (\<exists>u. URL r = Some u \<and> (URL.Path u \<noteq> TokenClaims.Path (Claims tkn)
                \<or> StandardClaims.Subject (Claims tkn) \<noteq> SignatureValidator.Subject s))"
  shows "handler lib s keyProvider tokenGet now1 now2 r = Return (handleError s r None)"
  using assms by (auto simp: handler_def Let_def)

lemma handler_error_cases:
  "tokenGet r = Inl err \<Longrightarrow>
     handler lib s keyProvider tokenGet now1 now2 r = Return (handleError s r (Some err))"
  "tokenGet r = Inr tok \<Longrightarrow>
   ParseWithClaims lib (Unix now2) tok (keyFunc lib now1 keyProvider) = Inl err \<Longrightarrow>
     handler lib s keyProvider tokenGet now1 now2 r = Return (handleError s r (Some err))"
  by (simp_all add: handler_def)

lemma handleError_Token [simp]: "handleError (s\<lparr>Token := g\<rparr>) r err = handleError s r err"
  by (simp add: handleError_def)

lemma handler_Token [simp]:
  "handler lib (s\<lparr>Token := g\<rparr>) keyProvider tokenGet now1 now2 r
     = handler lib s keyProvider tokenGet now1 now2 r"
  by (simp add: handler_def Let_def split: sum.splits option.splits)

lemma SignedRequestHandler_ServeHTTP_eq:
  assumes "SignatureValidator.Subject s \<noteq> []" and "KeyProvider s = Some keyProvider"
  shows "SignedRequestHandler_ServeHTTP lib s now1 now2 r =
           handler lib s keyProvider (case Token s of None \<Rightarrow> Bearer_Get | Some g \<Rightarrow> g) now1 now2 r"
  using assms
  by (cases "Token s") (simp_all add: SignedRequestHandler_ServeHTTP_def SignedRequestHandler_def)

lemma verifyExp_iff: "verifyExp exp now False \<longleftrightarrow> exp = 0 \<or> now \<le> exp"
  by (simp add: verifyExp_def)

lemma expired_rejected:
  assumes "SignatureValidator.Subject s \<noteq> []" and "KeyProvider s = Some keyProvider"
    and get: "(case Token s of None \<Rightarrow> Bearer_Get | Some g \<Rightarrow> g) r = Inr tok"
    and parse: "ParseUnverified lib tok = Inr (mth, c)"
    and exp: "ExpiresAt c \<noteq> 0" "ExpiresAt c < Unix now1 \<or> ExpiresAt c < Unix now2"
  shows "\<exists>err. SignedRequestHandler_ServeHTTP lib s now1 now2 r = Return (handleError s r (Some err))"
proof -
  let ?get = "case Token s of None \<Rightarrow> Bearer_Get | Some g \<Rightarrow> g"
  from exp have "StandardClaims_Valid (Unix now1) c \<noteq> None \<or> StandardClaims_Valid (Unix now2) c \<noteq> None"
    by (auto simp: StandardClaims_Valid_None_iff verifyExp_iff)
  then have "\<not> (\<exists>tkn. ParseWithClaims lib (Unix now2) tok (keyFunc lib now1 keyProvider) = Inr tkn)"
    using parse unfolding ParseWithClaims_Inr_iff keyFunc_Inr_iff by auto
  then obtain err where "ParseWithClaims lib (Unix now2) tok (keyFunc lib now1 keyProvider) = Inl err"
    by (meson sum.exhaust_sel sumE)
  with get have "handler lib s keyProvider ?get now1 now2 r = Return (handleError s r (Some err))"
    by (rule handler_error_cases(2))
  with assms(1,2) show ?thesis by (auto simp: SignedRequestHandler_ServeHTTP_eq)
qed

lemma checks_pass_accepted:
  assumes "SignatureValidator.Subject s \<noteq> []" and "KeyProvider s = Some keyProvider"
    and "(case Token s of None \<Rightarrow> Bearer_Get | Some g \<Rightarrow> g) r = Inr tok"
    and "ParseUnverified lib tok = Inr (SigningMethodRSA alg, c)"
    and "StandardClaims_Valid (Unix now1) c = None"
    and "StandardClaims_Valid (Unix now2) c = None"
    and "keyProvider (StandardClaims.Issuer c) = Inr pem"
    and "ParseRSAPublicKeyFromPEM lib pem = Inr key"
    and "Verify lib tok key = None"
    and "Request.Method r = TokenClaims.Method c"
    and "URL r = Some u" and "URL.Path u = TokenClaims.Path c"
    and "StandardClaims.Subject c = SignatureValidator.Subject s"
  shows "SignedRequestHandler_ServeHTTP lib s now1 now2 r = Return (ServeHTTP_next r)"
proof -
  let ?get = "case Token s of None \<Rightarrow> Bearer_Get | Some g \<Rightarrow> g"
  have "handler lib s keyProvider ?get now1 now2 r = Return (ServeHTTP_next r)"
    unfolding handler_ServeHTTP_next_iff using assms(3-) by auto
  with assms(1,2) show ?thesis by (simp add: SignedRequestHandler_ServeHTTP_eq)
qed

text \<open>
  Claim C2, as amended: a token whose claims carry the expiration time \<open>ExpiresAt c\<close> (not
  zero) is rejected, with a non-nil error, whenever one of the two clock readings is in a
  second after \<open>ExpiresAt c\<close>; and it is accepted, all other checks passing, whenever both
  readings are in a second up to and including \<open>ExpiresAt c\<close>: a token verified in the
  second of its expiry is still valid.
\<close>

theorem token_valid_through_its_expiry_second:
  assumes "SignatureValidator.Subject s \<noteq> []" and "KeyProvider s = Some keyProvider"
    and "(case Token s of None \<Rightarrow> Bearer_Get | Some g \<Rightarrow> g) r = Inr tok"
    and "ParseUnverified lib tok = Inr (mth, c)"
    and "ExpiresAt c \<noteq> 0"
  shows "(ExpiresAt c < Unix late1 \<or> ExpiresAt c < Unix late2 \<longrightarrow>
            (\<exists>err. SignedRequestHandler_ServeHTTP lib s late1 late2 r
                     = Return (handleError s r (Some err))))
       \<and> (Unix now1 \<le> ExpiresAt c \<and> Unix now2 \<le> ExpiresAt c
            \<and> mth = SigningMethodRSA alg
            \<and> verifyIat (IssuedAt c) (Unix now1) False \<and> verifyNbf (NotBefore c) (Unix now1) False
            \<and> verifyIat (IssuedAt c) (Unix now2) False \<and> verifyNbf (NotBefore c) (Unix now2) False
            \<and> keyProvider (StandardClaims.Issuer c) = Inr pem
            \<and> ParseRSAPublicKeyFromPEM lib pem = Inr key
            \<and> Verify lib tok key = None
            \<and> Request.Method r = TokenClaims.Method c
            \<and> URL r = Some u \<and> URL.Path u = TokenClaims.Path c
            \<and> StandardClaims.Subject c = SignatureValidator.Subject s \<longrightarrow>
            SignedRequestHandler_ServeHTTP lib s now1 now2 r = Return (ServeHTTP_next r))"
proof (intro conjI impI)
  assume "ExpiresAt c < Unix late1 \<or> ExpiresAt c < Unix late2"
  with assms show "\<exists>err. SignedRequestHandler_ServeHTTP lib s late1 late2 r
                      = Return (handleError s r (Some err))"
    by (rule expired_rejected)
next
  assume a: "Unix now1 \<le> ExpiresAt c \<and> Unix now2 \<le> ExpiresAt c
            \<and> mth = SigningMethodRSA alg
            \<and> verifyIat (IssuedAt c) (Unix now1) False \<and> verifyNbf (NotBefore c) (Unix now1) False
            \<and> verifyIat (IssuedAt c) (Unix now2) False \<and> verifyNbf (NotBefore c) (Unix now2) False
            \<and> keyProvider (StandardClaims.Issuer c) = Inr pem
            \<and> ParseRSAPublicKeyFromPEM lib pem = Inr key
            \<and> Verify lib tok key = None
            \<and> Request.Method r = TokenClaims.Method c
            \<and> URL r = Some u \<and> URL.Path u = TokenClaims.Path c
            \<and> StandardClaims.Subject c = SignatureValidator.Subject s"
  then have "StandardClaims_Valid (Unix now1) c = None" "StandardClaims_Valid (Unix now2) c = None"
    by (simp_all add: StandardClaims_Valid_None_iff verifyExp_iff)
  with assms a show "SignedRequestHandler_ServeHTTP lib s now1 now2 r = Return (ServeHTTP_next r)"
    by (intro checks_pass_accepted [where tok = tok and c = c and alg = alg and pem = pem
          and key = key and u = u and keyProvider = keyProvider]) simp_all
qed

text \<open>
  Claim C3, as amended: a token whose claims carry no expiration time (\<open>ExpiresAt\<close> zero)
  is not rejected for that. When the token decodes with an RSA signing method, the
  issued-at and the not-before time of its claims are each absent (zero) or not after
  either of the two clock readings, the key provider of the validator holds for the issuer
  a PEM that parses to a public key against which the signature verifies, and the method
  and the path of the request and the (non-empty) subject of the validator are those of
  the claims, the validator serves the request with the next handler, at every such pair
  of clock readings. (A token without expiration time whose not-before time is still to
  come is rejected, as any token is.)
\<close>

theorem token_without_expiry_accepted:
  assumes "SignatureValidator.Subject s \<noteq> []" and "KeyProvider s = Some keyProvider"
    and "(case Token s of None \<Rightarrow> Bearer_Get | Some g \<Rightarrow> g) r = Inr tok"
    and "ParseUnverified lib tok = Inr (SigningMethodRSA alg, c)"
    and "ExpiresAt c = 0"
    and "verifyIat (IssuedAt c) (Unix now1) False" and "verifyNbf (NotBefore c) (Unix now1) False"
    and "verifyIat (IssuedAt c) (Unix now2) False" and "verifyNbf (NotBefore c) (Unix now2) False"
    and "keyProvider (StandardClaims.Issuer c) = Inr pem"
    and "ParseRSAPublicKeyFromPEM lib pem = Inr key"
    and "Verify lib tok key = None"
    and "Request.Method r = TokenClaims.Method c"
    and "URL r = Some u" and "URL.Path u = TokenClaims.Path c"
    and "StandardClaims.Subject c = SignatureValidator.Subject s"
  shows "SignedRequestHandler_ServeHTTP lib s now1 now2 r = Return (ServeHTTP_next r)"
proof -
  from assms(5-9)
  have "StandardClaims_Valid (Unix now1) c = None" "StandardClaims_Valid (Unix now2) c = None"
    by (simp_all add: StandardClaims_Valid_None_iff verifyExp_iff)
  with assms show ?thesis
    by (intro checks_pass_accepted [where tok = tok and c = c and alg = alg and pem = pem
          and key = key and u = u and keyProvider = keyProvider]) simp_all
qed


lemma example_Validator_fields:
  "SignatureValidator.Subject example_Validator = ''service_2''"
  "KeyProvider example_Validator = Some (FileProvider_GetPublicKey example_keychain)"
  "Token example_Validator = None"
  "OnError example_Validator = False"
  by (simp_all add: example_Validator_def)

lemma example_keychain_lookup:
  "FileProvider_GetPublicKey example_keychain ''service_1'' = Inr ''PUBLIC KEY OF service_1''"
  by (simp add: FileProvider_GetPublicKey_def example_keychain_def)

lemma example_jwt_facts:
  "ParseRSAPrivateKeyFromPEM example_jwt ''PRIVATE KEY OF service_1'' = Inr ''private 1''"
  "ParseRSAPublicKeyFromPEM example_jwt ''PUBLIC KEY OF service_1'' = Inr ''public 1''"
  "SignedString example_jwt ''private 1'' example_claims = Inr ''TOKEN1''"
  "ParseUnverified example_jwt ''TOKEN1'' = Inr (SigningMethodRSA ''RS256'', example_claims)"
  "ParseUnverified example_jwt ''TOKEN0''
     = Inr (SigningMethodRSA ''RS256'', example_claims\<lparr>ExpiresAt := 0\<rparr>)"
  "Verify example_jwt ''TOKEN1'' ''public 1'' = None"
  "Verify example_jwt ''TOKEN0'' ''public 1'' = None"
  by (simp_all add: example_jwt_def)

lemma example_claims_fields:
  "ExpiresAt example_claims = 1623617697" "IssuedAt example_claims = 0"
  "NotBefore example_claims = 0" "StandardClaims.Issuer example_claims = ''service_1''"
  "StandardClaims.Subject example_claims = ''service_2''"
  "TokenClaims.Method example_claims = ''GET''" "TokenClaims.Path example_claims = ''/itm/123''"
  by (simp_all add: example_claims_def)

lemma example_Request_fields:
  "Request.Method example_signed_Request = ''GET''"
  "URL example_signed_Request = Some \<lparr>URL.Path = ''/itm/123''\<rparr>"
  "Bearer_Get example_signed_Request = Inr ''TOKEN1''"
  "Request.Method example_unexpiring_Request = ''GET''"
  "URL example_unexpiring_Request = Some \<lparr>URL.Path = ''/itm/123''\<rparr>"
  "Bearer_Get example_unexpiring_Request = Inr ''TOKEN0''"
  by (simp_all add: example_signed_Request_def example_unexpiring_Request_def example_Request_def
      Bearer_Get_def Header_Get_def FindStringSubmatch_Bearer_def HasPrefix_def)

lemma example_times:
  "Unix example_now = 1623617696" "Unix 1623617697000000000 = 1623617697"
  "Unix 1623617697999999999 = 1623617697" "Unix 1623617698000000000 = 1623617698"
  "Unix 4102444800000000000 = 4102444800"
  by (simp_all add: Unix_def Second_def example_now_def)

lemma example_accepted:
  assumes "Unix t1 \<le> 1623617697" and "Unix t2 \<le> 1623617697"
  shows "SignedRequestHandler_ServeHTTP example_jwt example_Validator t1 t2 example_signed_Request
           = Return (ServeHTTP_next example_signed_Request)"
  using assms
  by (intro checks_pass_accepted [where tok = "''TOKEN1''" and c = example_claims
        and alg = "''RS256''" and pem = "''PUBLIC KEY OF service_1''" and key = "''public 1''"
        and u = "\<lparr>URL.Path = ''/itm/123''\<rparr>"
        and keyProvider = "FileProvider_GetPublicKey example_keychain"])
    (simp_all add: example_Validator_fields example_keychain_lookup example_jwt_facts
      example_claims_fields example_Request_fields StandardClaims_Valid_None_iff verifyExp_iff
      verifyIat_def verifyNbf_def)

theorem token_valid_through_its_expiry_second_witness:
  "ExpiresAt example_claims < Unix 1623617698000000000
   \<and> SignedRequestHandler_ServeHTTP example_jwt example_Validator
        1623617698000000000 1623617698000000000 example_signed_Request
       = Return (WriteHeader StatusUnauthorized)
   \<and> Unix example_now \<le> ExpiresAt example_claims
   \<and> SignedRequestHandler_ServeHTTP example_jwt example_Validator
        example_now example_now example_signed_Request
       = Return (ServeHTTP_next example_signed_Request)"
proof -
  note t = token_valid_through_its_expiry_second
    [where s = example_Validator and keyProvider = "FileProvider_GetPublicKey example_keychain"
       and r = example_signed_Request and tok = "''TOKEN1''" and lib = example_jwt
       and mth = "SigningMethodRSA ''RS256''" and c = example_claims
       and ?late1.0 = 1623617698000000000 and ?late2.0 = 1623617698000000000
       and ?now1.0 = example_now and ?now2.0 = example_now and alg = "''RS256''"
       and pem = "''PUBLIC KEY OF service_1''" and key = "''public 1''"
       and u = "\<lparr>URL.Path = ''/itm/123''\<rparr>"]
  have "(\<exists>err. SignedRequestHandler_ServeHTTP example_jwt example_Validator
                 1623617698000000000 1623617698000000000 example_signed_Request
                = Return (handleError example_Validator example_signed_Request (Some err)))
        \<and> SignedRequestHandler_ServeHTTP example_jwt example_Validator
             example_now example_now example_signed_Request
            = Return (ServeHTTP_next example_signed_Request)"
    using t
    by (simp add: example_Validator_fields example_keychain_lookup example_jwt_facts
        example_claims_fields example_Request_fields example_times verifyIat_def verifyNbf_def)
  then show ?thesis
    by (auto simp: handleError_def example_Validator_fields example_claims_fields example_times)
qed

text \<open>
  Claim C2 as stated fails at the boundary: at a verification time equal to the expiration
  time the validator serves the request.
\<close>

theorem token_accepted_at_its_expiry_second_counterexample:
  "Unix 1623617697000000000 = ExpiresAt example_claims
   \<and> ParseUnverified example_jwt ''TOKEN1'' = Inr (SigningMethodRSA ''RS256'', example_claims)
   \<and> SignedRequestHandler_ServeHTTP example_jwt example_Validator
        1623617697000000000 1623617697000000000 example_signed_Request
       = Return (ServeHTTP_next example_signed_Request)"
  by (simp add: example_accepted example_times example_claims_fields example_jwt_facts)

lemma example_unexpiring_accepted:
  "SignedRequestHandler_ServeHTTP example_jwt example_Validator t1 t2 example_unexpiring_Request
     = Return (ServeHTTP_next example_unexpiring_Request)"
  by (intro checks_pass_accepted [where tok = "''TOKEN0''" and c = "example_claims\<lparr>ExpiresAt := 0\<rparr>"
        and alg = "''RS256''" and pem = "''PUBLIC KEY OF service_1''" and key = "''public 1''"
        and u = "\<lparr>URL.Path = ''/itm/123''\<rparr>"
        and keyProvider = "FileProvider_GetPublicKey example_keychain"])
    (simp_all add: example_Validator_fields example_keychain_lookup example_jwt_facts
      example_claims_fields example_Request_fields StandardClaims_Valid_None_iff verifyExp_iff
      verifyIat_def verifyNbf_def)

theorem token_without_expiry_accepted_witness:
  "ExpiresAt (example_claims\<lparr>ExpiresAt := 0\<rparr>) = 0
   \<and> SignedRequestHandler_ServeHTTP example_jwt example_Validator
        4102444800000000000 4102444800000000000 example_unexpiring_Request
       = Return (ServeHTTP_next example_unexpiring_Request)"
  using token_without_expiry_accepted
    [where s = example_Validator and keyProvider = "FileProvider_GetPublicKey example_keychain"
       and r = example_unexpiring_Request and tok = "''TOKEN0''" and lib = example_jwt
       and alg = "''RS256''" and c = "example_claims\<lparr>ExpiresAt := 0\<rparr>"
       and ?now1.0 = 4102444800000000000 and ?now2.0 = 4102444800000000000
       and pem = "''PUBLIC KEY OF service_1''" and key = "''public 1''"
       and u = "\<lparr>URL.Path = ''/itm/123''\<rparr>"]
  by (simp add: example_Validator_fields example_keychain_lookup example_jwt_facts
      example_claims_fields example_Request_fields verifyIat_def verifyNbf_def)

text \<open>
  Claim C3 as stated fails: the request carrying \<^verbatim>\<open>TOKEN0\<close>, whose claims have no
  expiration time, is served.
\<close>

theorem token_without_expiry_counterexample:
  "ParseUnverified example_jwt ''TOKEN0''
     = Inr (SigningMethodRSA ''RS256'', example_claims\<lparr>ExpiresAt := 0\<rparr>)
   \<and> Bearer_Get example_unexpiring_Request = Inr ''TOKEN0''
   \<and> SignedRequestHandler_ServeHTTP example_jwt example_Validator
        example_now example_now example_unexpiring_Request
       = Return (ServeHTTP_next example_unexpiring_Request)"
  by (simp add: example_unexpiring_accepted example_jwt_facts example_Request_fields)

text \<open>
  Claim C4 (a defect of the code): when the token is extracted, parsed and verified and then
  the method, the path or the subject of its claims differs from the request or the
  validator, the handler passes on the nil error of the successful parse: a configured
  \<^verbatim>\<open>OnError\<close> is called with nil, where the claim has it receive the error of the
  mismatch; without \<^verbatim>\<open>OnError\<close> the status 401 is written. The two earlier rejections do
  pass on the error that caused them (lemma \<open>handler_error_cases\<close>), and a handler
  without \<^verbatim>\<open>OnError\<close> that does not serve the request writes 401
  (lemma \<open>handler_outcomes_without_OnError\<close>).
\<close>

theorem binding_mismatch_reports_nil_error:
  assumes "SignatureValidator.Subject s \<noteq> []" and "KeyProvider s = Some keyProvider"
    and "(case Token s of None \<Rightarrow> Bearer_Get | Some g \<Rightarrow> g) r = Inr tok"
    and "ParseWithClaims lib (Unix now2) tok (keyFunc lib now1 keyProvider) = Inr tkn"
    and "Request.Method r \<noteq> TokenClaims.Method (Claims tkn)
         \<or> (\<exists>u. URL r = Some u \<and> (URL.Path u \<noteq> TokenClaims.Path (Claims tkn)
                \<or> StandardClaims.Subject (Claims tkn) \<noteq> SignatureValidator.Subject s))"
  shows "SignedRequestHandler_ServeHTTP lib s now1 now2 r
           = Return (if OnError s then OnError_called r None else WriteHeader StatusUnauthorized)"
proof -
  from assms(3-5)
  have "handler lib s keyProvider (case Token s of None \<Rightarrow> Bearer_Get | Some g \<Rightarrow> g) now1 now2 r
          = Return (handleError s r None)"
    by (rule handler_binding_mismatch)
  with assms(1,2) show ?thesis
    by (simp add: SignedRequestHandler_ServeHTTP_eq handleError_def)
qed

lemma example_ParseWithClaims:
  "ParseWithClaims example_jwt (Unix example_now) ''TOKEN1''
       (keyFunc example_jwt example_now (FileProvider_GetPublicKey example_keychain))
     = Inr \<lparr>Raw = ''TOKEN1'', Token.Method = SigningMethodRSA ''RS256'', Claims = example_claims,
            Valid = True\<rparr>"
  unfolding ParseWithClaims_Inr_iff keyFunc_Inr_iff
  by (simp add: example_jwt_facts example_keychain_lookup example_claims_fields example_times
      StandardClaims_Valid_None_iff verifyExp_iff verifyIat_def verifyNbf_def)

theorem binding_mismatch_reports_nil_error_witness:
  "Bearer_Get (example_signed_Request\<lparr>Request.Method := ''POST''\<rparr>) = Inr ''TOKEN1''
   \<and> Request.Method (example_signed_Request\<lparr>Request.Method := ''POST''\<rparr>)
        \<noteq> TokenClaims.Method example_claims
   \<and> SignedRequestHandler_ServeHTTP example_jwt (example_Validator\<lparr>OnError := True\<rparr>)
        example_now example_now (example_signed_Request\<lparr>Request.Method := ''POST''\<rparr>)
       = Return (OnError_called (example_signed_Request\<lparr>Request.Method := ''POST''\<rparr>) None)"
proof -
  have get: "Bearer_Get (example_signed_Request\<lparr>Request.Method := ''POST''\<rparr>) = Inr ''TOKEN1''"
    by (simp add: example_signed_Request_def example_Request_def
        Bearer_Get_def Header_Get_def FindStringSubmatch_Bearer_def HasPrefix_def)
  from binding_mismatch_reports_nil_error
    [where s = "example_Validator\<lparr>OnError := True\<rparr>"
       and keyProvider = "FileProvider_GetPublicKey example_keychain"
       and r = "example_signed_Request\<lparr>Request.Method := ''POST''\<rparr>"
       and tok = "''TOKEN1''" and lib = example_jwt
       and ?now1.0 = example_now and ?now2.0 = example_now
       and tkn = "\<lparr>Raw = ''TOKEN1'', Token.Method = SigningMethodRSA ''RS256'',
                    Claims = example_claims, Valid = True\<rparr>"]
  show ?thesis
    by (simp add: get example_ParseWithClaims example_Validator_fields example_claims_fields)
qed

lemma handler_outcomes:
  "handler lib s keyProvider tokenGet now1 now2 r = Panic nil_dereference
   \<or> handler lib s keyProvider tokenGet now1 now2 r = Return (ServeHTTP_next r)
   \<or> (\<exists>err. handler lib s keyProvider tokenGet now1 now2 r = Return (handleError s r err))"
  by (auto simp: handler_def Let_def split: sum.splits option.splits)

lemma handler_outcomes_without_OnError:
  "\<not> OnError s \<Longrightarrow>
   handler lib s keyProvider tokenGet now1 now2 r = Panic nil_dereference
   \<or> handler lib s keyProvider tokenGet now1 now2 r = Return (ServeHTTP_next r)
   \<or> handler lib s keyProvider tokenGet now1 now2 r = Return (WriteHeader StatusUnauthorized)"
  using handler_outcomes [of lib s keyProvider tokenGet now1 now2 r]
  by (auto simp: handleError_def)

lemma Bearer_Get_after_header_set:
  "token \<noteq> [] \<Longrightarrow> CHR 0x0A \<notin> set token \<Longrightarrow>
     Bearer_Get (r\<lparr>Header := Some (h(''Authorization'' \<mapsto> [''Bearer '' @ token]))\<rparr>) = Inr token"
  by (simp add: Bearer_Get_def Header_Get_def FindStringSubmatch_Bearer_token del: append.simps)

lemma Unix_mono: "a \<le> b \<Longrightarrow> Unix a \<le> Unix b"
  by (simp add: Unix_def Second_def zdiv_mono1)

lemma Sign_success:
  assumes "Signer.Issuer s \<noteq> []" and "PrivateRSAKey s \<noteq> []"
    and "TokenSetter s = None \<or> TokenSetter s = Some Bearer_Set"
    and "URL r = Some u" and "Header r = Some h"
    and "ParseRSAPrivateKeyFromPEM lib (PrivateRSAKey s) = Inr priv"
    and "SignedString lib priv
           \<lparr>Audience = [], ExpiresAt = Unix (now + (if TTL s = 0 then Second else TTL s)), Id = [],
            IssuedAt = 0, StandardClaims.Issuer = Signer.Issuer s, NotBefore = 0, Subject = subject,
            TokenClaims.Method = Request.Method r, TokenClaims.Path = URL.Path u\<rparr> = Inr tok"
  shows "\<exists>s'. Sign lib now s r subject =
           Return (None, s',
             r\<lparr>Header := Some (h(''Authorization'' \<mapsto>
                    (case h ''Authorization'' of None \<Rightarrow> [] | Some vs \<Rightarrow> vs) @ [''Bearer '' @ tok]))\<rparr>)"
proof (cases "TTL s = 0")
  case True
  with assms show ?thesis
    by (auto simp: Sign_def Let_def Bearer_Set_def Header_Add_def)
next
  case False
  with assms show ?thesis
    by (auto simp: Sign_def Let_def Bearer_Set_def Header_Add_def)
qed

text \<open>
  Claim C1, as amended: take a request with a URL and an allocated header map that holds no
  \<^verbatim>\<open>Authorization\<close> value, a non-empty subject, and a signer with a non-empty issuer, the
  Bearer carrier and a private key that the library parses. The claims signed are the
  issuer, the subject, the method and the path of the request, and the expiration time
  that is the second of the signing time plus the TTL (one second when the TTL is zero).
  Suppose that the token the library returns for these claims is a non-empty string
  without a newline, that the library decodes it to an RSA signing method and to exactly
  these claims, and that it verifies against the public key parsed from the PEM that the
  key provider of the validator holds for the issuer. Then \<open>Sign\<close> returns no error and
  leaves the request unchanged but for the added \<^verbatim>\<open>Authorization\<close> value, and the handler
  of a validator with the Bearer carrier whose subject is the signed subject, run on that
  request with both of its clock readings no later than the signing time plus the TTL,
  serves it with the next handler.

  That the token decodes to exactly the claims signed is a condition on the request and
  the signer, not only on the key pair: the library writes the claims as JSON, which
  keeps a string only when it is valid UTF-8. A method, path or subject that is not comes
  back changed, and the validator then rejects the request for its binding
  (lemma \<open>handler_binding_mismatch\<close>); an issuer that is not is looked up under the
  changed name.
\<close>

theorem sign_then_validate:
  assumes "Signer.Issuer s \<noteq> []" and "PrivateRSAKey s \<noteq> []" and "subject \<noteq> []"
    and "TokenSetter s = None \<or> TokenSetter s = Some Bearer_Set"
    and "URL r = Some u" and "Header r = Some h"
    and "h ''Authorization'' = None \<or> h ''Authorization'' = Some []"
    and "claims =
           \<lparr>Audience = [], ExpiresAt = Unix (now + (if TTL s = 0 then Second else TTL s)), Id = [],
            IssuedAt = 0, StandardClaims.Issuer = Signer.Issuer s, NotBefore = 0, Subject = subject,
            TokenClaims.Method = Request.Method r, TokenClaims.Path = URL.Path u\<rparr>"
    and "ParseRSAPrivateKeyFromPEM lib (PrivateRSAKey s) = Inr priv"
    and "SignedString lib priv claims = Inr tok"
    and "tok \<noteq> []" and "CHR 0x0A \<notin> set tok"
    and "ParseUnverified lib tok = Inr (SigningMethodRSA alg, claims)"
    and "Verify lib tok pub = None"
    and "SignatureValidator.Subject v = subject" and "KeyProvider v = Some keyProvider"
    and "Token v = None \<or> Token v = Some Bearer_Get"
    and "keyProvider (Signer.Issuer s) = Inr pem"
    and "ParseRSAPublicKeyFromPEM lib pem = Inr pub"
    and "now1 \<le> now + (if TTL s = 0 then Second else TTL s)"
    and "now2 \<le> now + (if TTL s = 0 then Second else TTL s)"
  shows "(\<exists>s'. Sign lib now s r subject =
            Return (None, s', r\<lparr>Header := Some (h(''Authorization'' \<mapsto> [''Bearer '' @ tok]))\<rparr>))
       \<and> SignedRequestHandler_ServeHTTP lib v now1 now2
            (r\<lparr>Header := Some (h(''Authorization'' \<mapsto> [''Bearer '' @ tok]))\<rparr>)
          = Return (ServeHTTP_next (r\<lparr>Header := Some (h(''Authorization'' \<mapsto> [''Bearer '' @ tok]))\<rparr>))"
proof
  let ?r' = "r\<lparr>Header := Some (h(''Authorization'' \<mapsto> [''Bearer '' @ tok]))\<rparr>"
  from assms(7) have "(case h ''Authorization'' of None \<Rightarrow> [] | Some vs \<Rightarrow> vs) = []" by auto
  with Sign_success [OF assms(1,2,4,5,6,9), of now subject tok] assms(8,10)
  show "\<exists>s'. Sign lib now s r subject = Return (None, s', ?r')" by simp
next
  let ?r' = "r\<lparr>Header := Some (h(''Authorization'' \<mapsto> [''Bearer '' @ tok]))\<rparr>"
  have get: "Bearer_Get ?r' = Inr tok"
    using Bearer_Get_after_header_set [where token = tok and r = r and h = h] assms(11,12) by simp
  from assms(17) have get': "(case Token v of None \<Rightarrow> Bearer_Get | Some g \<Rightarrow> g) ?r' = Inr tok"
    using get by auto
  have exp: "ExpiresAt claims = Unix (now + (if TTL s = 0 then Second else TTL s))"
    and other: "IssuedAt claims = 0" "NotBefore claims = 0"
      "StandardClaims.Issuer claims = Signer.Issuer s" "StandardClaims.Subject claims = subject"
      "TokenClaims.Method claims = Request.Method r" "TokenClaims.Path claims = URL.Path u"
    by (simp_all add: assms(8))
  have valid: "StandardClaims_Valid (Unix now1) claims = None"
    "StandardClaims_Valid (Unix now2) claims = None"
    using Unix_mono [OF assms(20)] Unix_mono [OF assms(21)]
    by (simp_all add: StandardClaims_Valid_None_iff verifyExp_iff verifyIat_def verifyNbf_def exp other)
  show "SignedRequestHandler_ServeHTTP lib v now1 now2 ?r' = Return (ServeHTTP_next ?r')"
    using assms(3,5,13-16,18,19) get' valid
    by (intro checks_pass_accepted [where tok = tok and c = claims and alg = alg and pem = pem
          and key = pub and u = u and keyProvider = keyProvider])
      (simp_all add: other)
qed


lemma example_Sign:
  "Sign example_jwt example_now example_Signer example_Request ''service_2''
     = Return (None, example_Signer\<lparr>TokenSetter := Some Bearer_Set, TTL := 1 * Second\<rparr>,
               example_signed_Request)"
  "Sign example_jwt example_now example_Signer example_Basic_Request ''service_2''
     = Return (None, example_Signer\<lparr>TokenSetter := Some Bearer_Set, TTL := 1 * Second\<rparr>,
               example_Request\<lparr>Header :=
                 Some [''Authorization'' \<mapsto> [''Basic dXNlcjpwYXNz'', ''Bearer TOKEN1'']]\<rparr>)"
  by (simp_all add: Sign_def Let_def example_Signer_def example_Request_def example_Basic_Request_def
      example_signed_Request_def example_jwt_def example_claims_def example_now_def Unix_def
      Second_def Bearer_Set_def Header_Add_def)

theorem sign_then_validate_witness:
  "Sign example_jwt example_now example_Signer example_Request ''service_2''
     = Return (None, example_Signer\<lparr>TokenSetter := Some Bearer_Set, TTL := 1 * Second\<rparr>,
               example_signed_Request)
   \<and> SignedRequestHandler_ServeHTTP example_jwt example_Validator example_now example_now
        example_signed_Request
       = Return (ServeHTTP_next example_signed_Request)"
proof -
  have c: "example_claims =
           \<lparr>Audience = [],
            ExpiresAt = Unix (example_now + (if TTL example_Signer = 0 then Second else TTL example_Signer)),
            Id = [], IssuedAt = 0, StandardClaims.Issuer = Signer.Issuer example_Signer,
            NotBefore = 0, Subject = ''service_2'',
            TokenClaims.Method = Request.Method example_Request,
            TokenClaims.Path = URL.Path \<lparr>URL.Path = ''/itm/123''\<rparr>\<rparr>"
    by (simp add: example_claims_def example_Signer_def example_Request_def example_now_def
        Unix_def Second_def)
  have r': "example_Request\<lparr>Header := Some (Map.empty(''Authorization'' \<mapsto> [''Bearer '' @ ''TOKEN1'']))\<rparr>
              = example_signed_Request"
    by (simp add: example_signed_Request_def)
  from sign_then_validate
    [where s = example_Signer and subject = "''service_2''" and r = example_Request
       and u = "\<lparr>URL.Path = ''/itm/123''\<rparr>" and h = Map.empty and claims = example_claims
       and now = example_now and lib = example_jwt and priv = "''private 1''" and tok = "''TOKEN1''"
       and alg = "''RS256''" and pub = "''public 1''" and v = example_Validator
       and keyProvider = "FileProvider_GetPublicKey example_keychain"
       and pem = "''PUBLIC KEY OF service_1''" and ?now1.0 = example_now and ?now2.0 = example_now,
     OF _ _ _ _ _ _ _ c]
  have "SignedRequestHandler_ServeHTTP example_jwt example_Validator example_now example_now
          (example_Request\<lparr>Header := Some (Map.empty(''Authorization'' \<mapsto> [''Bearer '' @ ''TOKEN1'']))\<rparr>)
        = Return (ServeHTTP_next
          (example_Request\<lparr>Header := Some (Map.empty(''Authorization'' \<mapsto> [''Bearer '' @ ''TOKEN1'']))\<rparr>))"
    by (simp add: example_Signer_def example_Request_def example_jwt_facts example_Validator_fields
        example_keychain_lookup Second_def)
  then show ?thesis unfolding r' by (simp add: example_Sign)
qed

text \<open>
  Claim C1 as stated fails for a request that already carries an \<^verbatim>\<open>Authorization\<close> value:
  \<open>Sign\<close> appends the token after it, the validator reads the first value, finds no
  bearer token and answers 401.
\<close>

theorem sign_then_validate_counterexample:
  "Sign example_jwt example_now example_Signer example_Basic_Request ''service_2''
     = Return (None, example_Signer\<lparr>TokenSetter := Some Bearer_Set, TTL := 1 * Second\<rparr>,
               example_Request\<lparr>Header :=
                 Some [''Authorization'' \<mapsto> [''Basic dXNlcjpwYXNz'', ''Bearer TOKEN1'']]\<rparr>)
   \<and> SignedRequestHandler_ServeHTTP example_jwt example_Validator example_now example_now
        (example_Request\<lparr>Header :=
                 Some [''Authorization'' \<mapsto> [''Basic dXNlcjpwYXNz'', ''Bearer TOKEN1'']]\<rparr>)
       = Return (WriteHeader StatusUnauthorized)"
proof -
  have "Bearer_Get (example_Request\<lparr>Header :=
                 Some [''Authorization'' \<mapsto> [''Basic dXNlcjpwYXNz'', ''Bearer TOKEN1'']]\<rparr>)
          = Inl (ErrorString ''bearer token not found'')"
    by (simp add: Bearer_Get_def Header_Get_def FindStringSubmatch_Bearer_def HasPrefix_def)
  then have "SignedRequestHandler_ServeHTTP example_jwt example_Validator example_now example_now
        (example_Request\<lparr>Header :=
                 Some [''Authorization'' \<mapsto> [''Basic dXNlcjpwYXNz'', ''Bearer TOKEN1'']]\<rparr>)
       = Return (WriteHeader StatusUnauthorized)"
    by (simp add: SignedRequestHandler_ServeHTTP_eq [where keyProvider = "FileProvider_GetPublicKey example_keychain"]
        example_Validator_fields handler_def handleError_def)
  then show ?thesis by (simp add: example_Sign)
qed

end
